theory Spec2Isabelle
  imports Complex_Main "HOL-Library.Word"
begin

unbundle bit_operations_syntax

section \<open>The AltiVec backend of the four-lane vector (src/util/v4/v4_altivec.hxx)\<close>

subsection \<open>Vector registers\<close>

type_synonym word32 = "32 word"
type_synonym byte = "8 word"

text \<open>
  Class \<open>v4\<close> has the single member \<open>_v4_float v\<close>, a 128-bit AltiVec register;
  \<open>v4int\<close> and \<open>v4float\<close> derive from it and add no data. The casts between
  \<open>_v4_float\<close>, \<open>_v4_int\<close> and \<open>_v4_uint\<close> relabel the same bits, so one type of four
  32-bit lanes stands for all of them: a lane holds the bit pattern, read as a signed
  integer by the integer operations and as an IEEE-754 single by the float ones.
\<close>

datatype v4 = V4 (lane0: word32) (lane1: word32) (lane2: word32) (lane3: word32)

text \<open>
  Lane \<open>n\<close> of a register, the \<open>t.f[n]\<close> and \<open>t.i[n]\<close> of the source's unions.
  The source indexes lanes with 0 to 3 only, and so do the callers of \<open>lane\<close> here.
\<close>

fun lane :: "v4 \<Rightarrow> nat \<Rightarrow> word32" where
  "lane (V4 x0 x1 x2 x3) n =
     (if n = 0 then x0 else if n = 1 then x1 else if n = 2 then x2 else x3)"

fun map_v4 :: "(word32 \<Rightarrow> word32) \<Rightarrow> v4 \<Rightarrow> v4" where
  "map_v4 g (V4 x0 x1 x2 x3) = V4 (g x0) (g x1) (g x2) (g x3)"

fun map2_v4 :: "(word32 \<Rightarrow> word32 \<Rightarrow> word32) \<Rightarrow> v4 \<Rightarrow> v4 \<Rightarrow> v4" where
  "map2_v4 g (V4 x0 x1 x2 x3) (V4 y0 y1 y2 y3) = V4 (g x0 y0) (g x1 y1) (g x2 y2) (g x3 y3)"

fun map3_v4 :: "(word32 \<Rightarrow> word32 \<Rightarrow> word32 \<Rightarrow> word32) \<Rightarrow> v4 \<Rightarrow> v4 \<Rightarrow> v4 \<Rightarrow> v4" where
  "map3_v4 g (V4 x0 x1 x2 x3) (V4 y0 y1 y2 y3) (V4 z0 z1 z2 z3) =
     V4 (g x0 y0 z0) (g x1 y1 z1) (g x2 y2 z2) (g x3 y3 z3)"

text \<open>
  AltiVec is big-endian: byte \<open>k\<close> of a lane (\<open>k = 0\<close> first in memory) is its
  \<open>k\<close>-th most significant byte, and byte \<open>4 * i + k\<close> of a register is byte \<open>k\<close>
  of lane \<open>i\<close>.
\<close>

definition byte_of :: "nat \<Rightarrow> word32 \<Rightarrow> byte" where
  "byte_of k w = ucast (drop_bit (8 * (3 - k)) w)"

definition word_of_bytes :: "byte \<Rightarrow> byte \<Rightarrow> byte \<Rightarrow> byte \<Rightarrow> word32" where
  "word_of_bytes b0 b1 b2 b3 =
     push_bit 24 (ucast b0) OR push_bit 16 (ucast b1) OR push_bit 8 (ucast b2) OR ucast b3"

definition bytes_of_word :: "word32 \<Rightarrow> byte list" where
  "bytes_of_word w = [byte_of 0 w, byte_of 1 w, byte_of 2 w, byte_of 3 w]"

fun bytes_of_v4 :: "v4 \<Rightarrow> byte list" where
  "bytes_of_v4 (V4 x0 x1 x2 x3) =
     bytes_of_word x0 @ bytes_of_word x1 @ bytes_of_word x2 @ bytes_of_word x3"

subsection \<open>The permutation table\<close>

text \<open>
  The macro \<open>P(i0,i1,i2,i3)\<close> is the sixteen-byte control vector
  \<open>{ 4*i0, 4*i0+1, 4*i0+2, 4*i0+3, 4*i1, ... , 4*i3+3 }\<close> of unsigned chars.
\<close>

definition P :: "int \<Rightarrow> int \<Rightarrow> int \<Rightarrow> int \<Rightarrow> v4" where
  "P i0 i1 i2 i3 =
     V4 (word_of_bytes (of_int (4*i0)) (of_int (4*i0+1)) (of_int (4*i0+2)) (of_int (4*i0+3)))
        (word_of_bytes (of_int (4*i1)) (of_int (4*i1+1)) (of_int (4*i1+2)) (of_int (4*i1+3)))
        (word_of_bytes (of_int (4*i2)) (of_int (4*i2+1)) (of_int (4*i2+2)) (of_int (4*i2+3)))
        (word_of_bytes (of_int (4*i3)) (of_int (4*i3+1)) (of_int (4*i3+2)) (of_int (4*i3+3)))"

text \<open>The array \<open>_perm[256]\<close>, entry by entry as the source lists it.\<close>

definition perm_table :: "v4 list" where
  "perm_table = [
     P 0 0 0 0, P 1 0 0 0, P 2 0 0 0, P 3 0 0 0,
     P 0 1 0 0, P 1 1 0 0, P 2 1 0 0, P 3 1 0 0,
     P 0 2 0 0, P 1 2 0 0, P 2 2 0 0, P 3 2 0 0,
     P 0 3 0 0, P 1 3 0 0, P 2 3 0 0, P 3 3 0 0,
     P 0 0 1 0, P 1 0 1 0, P 2 0 1 0, P 3 0 1 0,
     P 0 1 1 0, P 1 1 1 0, P 2 1 1 0, P 3 1 1 0,
     P 0 2 1 0, P 1 2 1 0, P 2 2 1 0, P 3 2 1 0,
     P 0 3 1 0, P 1 3 1 0, P 2 3 1 0, P 3 3 1 0,
     P 0 0 2 0, P 1 0 2 0, P 2 0 2 0, P 3 0 2 0,
     P 0 1 2 0, P 1 1 2 0, P 2 1 2 0, P 3 1 2 0,
     P 0 2 2 0, P 1 2 2 0, P 2 2 2 0, P 3 2 2 0,
     P 0 3 2 0, P 1 3 2 0, P 2 3 2 0, P 3 3 2 0,
     P 0 0 3 0, P 1 0 3 0, P 2 0 3 0, P 3 0 3 0,
     P 0 1 3 0, P 1 1 3 0, P 2 1 3 0, P 3 1 3 0,
     P 0 2 3 0, P 1 2 3 0, P 2 2 3 0, P 3 2 3 0,
     P 0 3 3 0, P 1 3 3 0, P 2 3 3 0, P 3 3 3 0,
     P 0 0 0 1, P 1 0 0 1, P 2 0 0 1, P 3 0 0 1,
     P 0 1 0 1, P 1 1 0 1, P 2 1 0 1, P 3 1 0 1,
     P 0 2 0 1, P 1 2 0 1, P 2 2 0 1, P 3 2 0 1,
     P 0 3 0 1, P 1 3 0 1, P 2 3 0 1, P 3 3 0 1,
     P 0 0 1 1, P 1 0 1 1, P 2 0 1 1, P 3 0 1 1,
     P 0 1 1 1, P 1 1 1 1, P 2 1 1 1, P 3 1 1 1,
     P 0 2 1 1, P 1 2 1 1, P 2 2 1 1, P 3 2 1 1,
     P 0 3 1 1, P 1 3 1 1, P 2 3 1 1, P 3 3 1 1,
     P 0 0 2 1, P 1 0 2 1, P 2 0 2 1, P 3 0 2 1,
     P 0 1 2 1, P 1 1 2 1, P 2 1 2 1, P 3 1 2 1,
     P 0 2 2 1, P 1 2 2 1, P 2 2 2 1, P 3 2 2 1,
     P 0 3 2 1, P 1 3 2 1, P 2 3 2 1, P 3 3 2 1,
     P 0 0 3 1, P 1 0 3 1, P 2 0 3 1, P 3 0 3 1,
     P 0 1 3 1, P 1 1 3 1, P 2 1 3 1, P 3 1 3 1,
     P 0 2 3 1, P 1 2 3 1, P 2 2 3 1, P 3 2 3 1,
     P 0 3 3 1, P 1 3 3 1, P 2 3 3 1, P 3 3 3 1,
     P 0 0 0 2, P 1 0 0 2, P 2 0 0 2, P 3 0 0 2,
     P 0 1 0 2, P 1 1 0 2, P 2 1 0 2, P 3 1 0 2,
     P 0 2 0 2, P 1 2 0 2, P 2 2 0 2, P 3 2 0 2,
     P 0 3 0 2, P 1 3 0 2, P 2 3 0 2, P 3 3 0 2,
     P 0 0 1 2, P 1 0 1 2, P 2 0 1 2, P 3 0 1 2,
     P 0 1 1 2, P 1 1 1 2, P 2 1 1 2, P 3 1 1 2,
     P 0 2 1 2, P 1 2 1 2, P 2 2 1 2, P 3 2 1 2,
     P 0 3 1 2, P 1 3 1 2, P 2 3 1 2, P 3 3 1 2,
     P 0 0 2 2, P 1 0 2 2, P 2 0 2 2, P 3 0 2 2,
     P 0 1 2 2, P 1 1 2 2, P 2 1 2 2, P 3 1 2 2,
     P 0 2 2 2, P 1 2 2 2, P 2 2 2 2, P 3 2 2 2,
     P 0 3 2 2, P 1 3 2 2, P 2 3 2 2, P 3 3 2 2,
     P 0 0 3 2, P 1 0 3 2, P 2 0 3 2, P 3 0 3 2,
     P 0 1 3 2, P 1 1 3 2, P 2 1 3 2, P 3 1 3 2,
     P 0 2 3 2, P 1 2 3 2, P 2 2 3 2, P 3 2 3 2,
     P 0 3 3 2, P 1 3 3 2, P 2 3 3 2, P 3 3 3 2,
     P 0 0 0 3, P 1 0 0 3, P 2 0 0 3, P 3 0 0 3,
     P 0 1 0 3, P 1 1 0 3, P 2 1 0 3, P 3 1 0 3,
     P 0 2 0 3, P 1 2 0 3, P 2 2 0 3, P 3 2 0 3,
     P 0 3 0 3, P 1 3 0 3, P 2 3 0 3, P 3 3 0 3,
     P 0 0 1 3, P 1 0 1 3, P 2 0 1 3, P 3 0 1 3,
     P 0 1 1 3, P 1 1 1 3, P 2 1 1 3, P 3 1 1 3,
     P 0 2 1 3, P 1 2 1 3, P 2 2 1 3, P 3 2 1 3,
     P 0 3 1 3, P 1 3 1 3, P 2 3 1 3, P 3 3 1 3,
     P 0 0 2 3, P 1 0 2 3, P 2 0 2 3, P 3 0 2 3,
     P 0 1 2 3, P 1 1 2 3, P 2 1 2 3, P 3 1 2 3,
     P 0 2 2 3, P 1 2 2 3, P 2 2 2 3, P 3 2 2 3,
     P 0 3 2 3, P 1 3 2 3, P 2 3 2 3, P 3 3 2 3,
     P 0 0 3 3, P 1 0 3 3, P 2 0 3 3, P 3 0 3 3,
     P 0 1 3 3, P 1 1 3 3, P 2 1 3 3, P 3 1 3 3,
     P 0 2 3 3, P 1 2 3 3, P 2 2 3 3, P 3 2 3 3,
     P 0 3 3 3, P 1 3 3 3, P 2 3 3 3, P 3 3 3 3
   ]"

subsection \<open>Constants\<close>

text \<open>
  \<open>_false\<close>, \<open>_true\<close>, \<open>_ione\<close> are integer lanes; \<open>_zero\<close>, \<open>_half\<close>, \<open>_one\<close> are the
  IEEE-754 single encodings of 0.0f, 0.5f and 1.0f; \<open>_sign\<close> is \<open>1 << 31\<close> in each lane.
\<close>

definition v_false :: v4 where "v_false = V4 0 0 0 0"
definition v_true :: v4 where "v_true = V4 (- 1) (- 1) (- 1) (- 1)"
definition v_ione :: v4 where "v_ione = V4 1 1 1 1"
definition v_zero :: v4 where "v_zero = V4 0 0 0 0"
definition v_half :: v4 where "v_half = V4 0x3F000000 0x3F000000 0x3F000000 0x3F000000"
definition v_one :: v4 where "v_one = V4 0x3F800000 0x3F800000 0x3F800000 0x3F800000"
definition v_sign :: v4 where "v_sign = V4 0x80000000 0x80000000 0x80000000 0x80000000"

subsection \<open>The AltiVec intrinsics the file calls: data movement and bitwise logic\<close>

text \<open>
  \<open>vec_mergeh\<close> interleaves the two high lanes of its operands, \<open>vec_mergel\<close> the two
  low ones; the comments of \<open>transpose\<close> show it: from \<open>a0 = 0 1 2 3\<close> and
  \<open>c1 = 8 9 10 11\<close>, \<open>vec_mergeh( a0, c1 ) = 0 8 1 9\<close> and
  \<open>vec_mergel( a0, c1 ) = 2 10 3 11\<close>.
\<close>

definition vec_mergeh :: "v4 \<Rightarrow> v4 \<Rightarrow> v4" where
  "vec_mergeh a b = V4 (lane0 a) (lane0 b) (lane1 a) (lane1 b)"

definition vec_mergel :: "v4 \<Rightarrow> v4 \<Rightarrow> v4" where
  "vec_mergel a b = V4 (lane2 a) (lane2 b) (lane3 a) (lane3 b)"

text \<open>\<open>vec_splat( a, n )\<close> copies lane \<open>n\<close> into every lane.\<close>

definition vec_splat :: "v4 \<Rightarrow> nat \<Rightarrow> v4" where
  "vec_splat a n = V4 (lane a n) (lane a n) (lane a n) (lane a n)"

text \<open>
  \<open>vec_perm( a, b, c )\<close>: byte \<open>i\<close> of the result is the byte of the 32-byte
  concatenation of \<open>a\<close> and \<open>b\<close> that the low five bits of byte \<open>i\<close> of \<open>c\<close> select.
\<close>

definition perm_lane :: "byte list \<Rightarrow> word32 \<Rightarrow> word32" where
  "perm_lane src w =
     word_of_bytes (src ! (unat (byte_of 0 w) mod 32)) (src ! (unat (byte_of 1 w) mod 32))
                   (src ! (unat (byte_of 2 w) mod 32)) (src ! (unat (byte_of 3 w) mod 32))"

definition vec_perm :: "v4 \<Rightarrow> v4 \<Rightarrow> v4 \<Rightarrow> v4" where
  "vec_perm a b c = map_v4 (perm_lane (bytes_of_v4 a @ bytes_of_v4 b)) c"

definition vec_and :: "v4 \<Rightarrow> v4 \<Rightarrow> v4" where
  "vec_and a b = map2_v4 (\<lambda>x y. x AND y) a b"

definition vec_andc :: "v4 \<Rightarrow> v4 \<Rightarrow> v4" where
  "vec_andc a b = map2_v4 (\<lambda>x y. x AND NOT y) a b"

definition vec_or :: "v4 \<Rightarrow> v4 \<Rightarrow> v4" where
  "vec_or a b = map2_v4 (\<lambda>x y. x OR y) a b"

definition vec_xor :: "v4 \<Rightarrow> v4 \<Rightarrow> v4" where
  "vec_xor a b = map2_v4 (\<lambda>x y. x XOR y) a b"

text \<open>\<open>vec_sel( a, b, c )\<close> takes each bit from \<open>b\<close> where \<open>c\<close> has a one, from \<open>a\<close> elsewhere.\<close>

definition vec_sel :: "v4 \<Rightarrow> v4 \<Rightarrow> v4 \<Rightarrow> v4" where
  "vec_sel a b c = map3_v4 (\<lambda>x y m. (x AND NOT m) OR (y AND m)) a b c"

subsection \<open>Integer comparisons\<close>

text \<open>
  The compare intrinsics return a \<open>vector bool int\<close>: a lane is set to all ones where
  the comparison holds and to zero where it does not. The integer ones compare the
  lanes as signed 32-bit integers.
\<close>

definition cmp_mask :: "bool \<Rightarrow> word32" where
  "cmp_mask t = (if t then - 1 else 0)"

definition vec_cmpeq :: "v4 \<Rightarrow> v4 \<Rightarrow> v4" where
  "vec_cmpeq a b = map2_v4 (\<lambda>x y. cmp_mask (x = y)) a b"

definition vec_cmpgt :: "v4 \<Rightarrow> v4 \<Rightarrow> v4" where
  "vec_cmpgt a b = map2_v4 (\<lambda>x y. cmp_mask (sint y < sint x)) a b"

definition vec_cmplt :: "v4 \<Rightarrow> v4 \<Rightarrow> v4" where
  "vec_cmplt a b = map2_v4 (\<lambda>x y. cmp_mask (sint x < sint y)) a b"

subsection \<open>Floating-point instructions\<close>

text \<open>
  The file fixes neither the rounding of the fused multiply-add, nor the accuracy of the
  estimate instructions (its comments say "??-bit accurate"), nor the treatment of
  denormals and NaNs in comparisons: they belong to the processor. The model takes the
  per-lane behaviour of these instructions as a parameter, a function on bit patterns
  for each: \<open>vrefp\<close>, \<open>vrsqrtefp\<close>, \<open>vmaddfp\<close> (\<open>a * b + c\<close>), \<open>vnmsubfp\<close>
  (\<open>- (a * b - c)\<close>), and the predicates of \<open>vcmpeqfp\<close>, \<open>vcmpgtfp\<close>, \<open>vcmpgefp\<close>.
\<close>

record fpu =
  fp_re :: "word32 \<Rightarrow> word32"
  fp_rsqrte :: "word32 \<Rightarrow> word32"
  fp_madd :: "word32 \<Rightarrow> word32 \<Rightarrow> word32 \<Rightarrow> word32"
  fp_nmsub :: "word32 \<Rightarrow> word32 \<Rightarrow> word32 \<Rightarrow> word32"
  fp_eq :: "word32 \<Rightarrow> word32 \<Rightarrow> bool"
  fp_gt :: "word32 \<Rightarrow> word32 \<Rightarrow> bool"
  fp_ge :: "word32 \<Rightarrow> word32 \<Rightarrow> bool"

definition vec_re :: "fpu \<Rightarrow> v4 \<Rightarrow> v4" where
  "vec_re U a = map_v4 (fp_re U) a"

definition vec_rsqrte :: "fpu \<Rightarrow> v4 \<Rightarrow> v4" where
  "vec_rsqrte U a = map_v4 (fp_rsqrte U) a"

definition vec_madd :: "fpu \<Rightarrow> v4 \<Rightarrow> v4 \<Rightarrow> v4 \<Rightarrow> v4" where
  "vec_madd U a b c = map3_v4 (fp_madd U) a b c"

definition vec_nmsub :: "fpu \<Rightarrow> v4 \<Rightarrow> v4 \<Rightarrow> v4 \<Rightarrow> v4" where
  "vec_nmsub U a b c = map3_v4 (fp_nmsub U) a b c"

definition vec_cmpeq_fp :: "fpu \<Rightarrow> v4 \<Rightarrow> v4 \<Rightarrow> v4" where
  "vec_cmpeq_fp U a b = map2_v4 (\<lambda>x y. cmp_mask (fp_eq U x y)) a b"

definition vec_cmpgt_fp :: "fpu \<Rightarrow> v4 \<Rightarrow> v4 \<Rightarrow> v4" where
  "vec_cmpgt_fp U a b = map2_v4 (\<lambda>x y. cmp_mask (fp_gt U x y)) a b"

definition vec_cmpge_fp :: "fpu \<Rightarrow> v4 \<Rightarrow> v4 \<Rightarrow> v4" where
  "vec_cmpge_fp U a b = map2_v4 (\<lambda>x y. cmp_mask (fp_ge U x y)) a b"

text \<open>\<open>vec_cmplt( a, b )\<close> and \<open>vec_cmple( a, b )\<close> are the two above with the operands exchanged.\<close>

definition vec_cmplt_fp :: "fpu \<Rightarrow> v4 \<Rightarrow> v4 \<Rightarrow> v4" where
  "vec_cmplt_fp U a b = vec_cmpgt_fp U b a"

definition vec_cmple_fp :: "fpu \<Rightarrow> v4 \<Rightarrow> v4 \<Rightarrow> v4" where
  "vec_cmple_fp U a b = vec_cmpge_fp U b a"

subsection \<open>Memory\<close>

text \<open>
  Memory is an array of bytes indexed by address. A scalar float access
  \<open>((float *)p)[k]\<close> moves the four bytes at \<open>p + 4 * k\<close>. \<open>vec_ld( off, p )\<close> and
  \<open>vec_st( v, off, p )\<close> move the sixteen bytes at the address \<open>off + p\<close> with its low
  four bits cleared.
\<close>

type_synonym mem = "nat \<Rightarrow> byte"

definition load_float :: "mem \<Rightarrow> nat \<Rightarrow> word32" where
  "load_float m p = word_of_bytes (m p) (m (p + 1)) (m (p + 2)) (m (p + 3))"

definition store_float :: "word32 \<Rightarrow> nat \<Rightarrow> mem \<Rightarrow> mem" where
  "store_float w p m =
     m(p := byte_of 0 w, p + 1 := byte_of 1 w, p + 2 := byte_of 2 w, p + 3 := byte_of 3 w)"

text \<open>
  A \<open>v4\<close> object that lives in memory at address \<open>q\<close> (one bound to a \<open>const v4 &\<close>
  parameter) occupies the sixteen bytes at \<open>q\<close>; reading its member \<open>v\<close> reads them.
\<close>

definition load_v4 :: "mem \<Rightarrow> nat \<Rightarrow> v4" where
  "load_v4 m q =
     V4 (load_float m q) (load_float m (q + 4)) (load_float m (q + 8)) (load_float m (q + 12))"

definition ea16 :: "nat \<Rightarrow> nat \<Rightarrow> nat" where
  "ea16 off p = 16 * ((off + p) div 16)"

definition vec_ld :: "nat \<Rightarrow> nat \<Rightarrow> mem \<Rightarrow> v4" where
  "vec_ld off p m =
     (let ea = ea16 off p
      in V4 (load_float m ea) (load_float m (ea + 4))
            (load_float m (ea + 8)) (load_float m (ea + 12)))"

definition vec_st :: "v4 \<Rightarrow> nat \<Rightarrow> nat \<Rightarrow> mem \<Rightarrow> mem" where
  "vec_st v off p m =
     (let ea = ea16 off p
      in store_float (lane3 v) (ea + 12)
           (store_float (lane2 v) (ea + 8)
             (store_float (lane1 v) (ea + 4)
               (store_float (lane0 v) ea m))))"

text \<open>The memory that holds zero everywhere, for the concrete instances below.\<close>

definition mem0 :: mem where
  "mem0 = (\<lambda>_. 0)"

section \<open>The functions of the file\<close>

subsection \<open>v4 miscellaneous functions\<close>

text \<open>
  \<open>splat\<close> passes \<open>n\<close> to \<open>vec_splat\<close>, which has lanes 0 to 3 only; any other \<open>n\<close>
  is undefined, here \<open>None\<close>.
\<close>

definition splat :: "v4 \<Rightarrow> int \<Rightarrow> v4 option" where
  "splat a n = (if 0 \<le> n \<and> n < 4 then Some (vec_splat a (nat n)) else None)"

text \<open>
  \<open>shuffle\<close> reads \<open>_perm[i0 + i1*4 + i2*16 + i3*64]\<close>; an index outside the 256
  entries is an out-of-bounds read, here \<open>None\<close>.
\<close>

definition shuffle :: "v4 \<Rightarrow> int \<Rightarrow> int \<Rightarrow> int \<Rightarrow> int \<Rightarrow> v4 option" where
  "shuffle a i0 i1 i2 i3 =
     (let idx = i0 + i1*4 + i2*16 + i3*64
      in if 0 \<le> idx \<and> idx < 256
         then Some (vec_perm a a (perm_table ! nat idx))
         else None)"

text \<open>\<open>transpose\<close> updates its four arguments in place; the model returns the four new values.\<close>

definition transpose_v4 :: "v4 \<times> v4 \<times> v4 \<times> v4 \<Rightarrow> v4 \<times> v4 \<times> v4 \<times> v4" where
  "transpose_v4 abcd =
     (case abcd of (a, b, c, d) \<Rightarrow>
        let a0 = a; b0 = b; c1 = c; d1 = d;
            a1 = vec_mergeh a0 c1;
            b1 = vec_mergeh b0 d1;
            c1 = vec_mergel a0 c1;
            d1 = vec_mergel b0 d1
        in (vec_mergeh a1 b1, vec_mergel a1 b1, vec_mergeh c1 d1, vec_mergel c1 d1))"

subsection \<open>v4 transposed memory manipulation functions\<close>

text \<open>
  The loads fill their reference arguments and leave memory alone: the model returns the
  vectors. The stores return the new memory. \<open>store_4x4_tr\<close> copies its four vector
  arguments before its first store, so the model passes their values.
\<close>

definition load_4x2_tr :: "nat \<Rightarrow> nat \<Rightarrow> nat \<Rightarrow> nat \<Rightarrow> mem \<Rightarrow> v4 \<times> v4" where
  "load_4x2_tr pa pb pc pd m =
     (V4 (load_float m pa) (load_float m pb) (load_float m pc) (load_float m pd),
      V4 (load_float m (pa + 4)) (load_float m (pb + 4))
         (load_float m (pc + 4)) (load_float m (pd + 4)))"

definition load_4x4_tr :: "nat \<Rightarrow> nat \<Rightarrow> nat \<Rightarrow> nat \<Rightarrow> mem \<Rightarrow> v4 \<times> v4 \<times> v4 \<times> v4" where
  "load_4x4_tr pa pb pc pd m =
     (let a0 = vec_ld 0 pa m;
          b0 = vec_ld 0 pb m;
          c1 = vec_ld 0 pc m;
          d1 = vec_ld 0 pd m;
          a1 = vec_mergeh a0 c1;
          b1 = vec_mergeh b0 d1;
          c1 = vec_mergel a0 c1;
          d1 = vec_mergel b0 d1
      in (vec_mergeh a1 b1, vec_mergel a1 b1, vec_mergeh c1 d1, vec_mergel c1 d1))"

text \<open>
  \<open>store_4x2_tr\<close> takes \<open>a\<close> and \<open>b\<close> by \<open>const\<close> reference and copies \<open>b.v\<close> into
  \<open>t\<close> only after the four stores of the lanes of \<open>a\<close>: what it stores as field 1 is
  what the object \<open>b\<close> holds at that moment. The model therefore takes the addresses of
  the two objects and reads them from the memory of the moment.
\<close>

definition store_4x2_tr :: "nat \<Rightarrow> nat \<Rightarrow> nat \<Rightarrow> nat \<Rightarrow> nat \<Rightarrow> nat \<Rightarrow> mem \<Rightarrow> mem" where
  "store_4x2_tr a b pa pb pc pd m =
     (let t = load_v4 m a;
          m = store_float (lane0 t) pa m;
          m = store_float (lane1 t) pb m;
          m = store_float (lane2 t) pc m;
          m = store_float (lane3 t) pd m;
          t = load_v4 m b;
          m = store_float (lane0 t) (pa + 4) m;
          m = store_float (lane1 t) (pb + 4) m;
          m = store_float (lane2 t) (pc + 4) m;
          m = store_float (lane3 t) (pd + 4) m
      in m)"

definition store_4x4_tr ::
  "v4 \<Rightarrow> v4 \<Rightarrow> v4 \<Rightarrow> v4 \<Rightarrow> nat \<Rightarrow> nat \<Rightarrow> nat \<Rightarrow> nat \<Rightarrow> mem \<Rightarrow> mem" where
  "store_4x4_tr a b c d pa pb pc pd m =
     (let a0 = a; b0 = b; c1 = c; d1 = d;
          a1 = vec_mergeh a0 c1;
          b1 = vec_mergeh b0 d1;
          c1 = vec_mergel a0 c1;
          d1 = vec_mergel b0 d1;
          m = vec_st (vec_mergeh a1 b1) 0 pa m;
          m = vec_st (vec_mergel a1 b1) 0 pb m;
          m = vec_st (vec_mergeh c1 d1) 0 pc m;
          m = vec_st (vec_mergel c1 d1) 0 pd m
      in m)"

subsection \<open>v4int logical operators\<close>

definition v4int_lt :: "v4 \<Rightarrow> v4 \<Rightarrow> v4" where
  "v4int_lt a b = vec_cmplt a b"

definition v4int_gt :: "v4 \<Rightarrow> v4 \<Rightarrow> v4" where
  "v4int_gt a b = vec_cmpgt a b"

definition v4int_eq :: "v4 \<Rightarrow> v4 \<Rightarrow> v4" where
  "v4int_eq a b = vec_cmpeq a b"

definition v4int_ne :: "v4 \<Rightarrow> v4 \<Rightarrow> v4" where
  "v4int_ne a b = vec_xor v_true (vec_cmpeq a b)"

definition v4int_le :: "v4 \<Rightarrow> v4 \<Rightarrow> v4" where
  "v4int_le a b = vec_xor v_true (vec_cmpgt a b)"

definition v4int_ge :: "v4 \<Rightarrow> v4 \<Rightarrow> v4" where
  "v4int_ge a b = vec_xor v_true (vec_cmplt a b)"

definition v4int_land :: "v4 \<Rightarrow> v4 \<Rightarrow> v4" where
  "v4int_land a b = vec_xor v_true (vec_or (vec_cmpeq a v_false) (vec_cmpeq b v_false))"

definition v4int_lor :: "v4 \<Rightarrow> v4 \<Rightarrow> v4" where
  "v4int_lor a b = vec_xor v_true (vec_and (vec_cmpeq a v_false) (vec_cmpeq b v_false))"

subsection \<open>v4int miscellaneous functions\<close>

definition czero :: "v4 \<Rightarrow> v4 \<Rightarrow> v4" where
  "czero c a = vec_andc a c"

definition notczero :: "v4 \<Rightarrow> v4 \<Rightarrow> v4" where
  "notczero c a = vec_and a c"

definition merge :: "v4 \<Rightarrow> v4 \<Rightarrow> v4 \<Rightarrow> v4" where
  "merge c t f = vec_sel f t c"

subsection \<open>v4float binary operators\<close>

definition v4float_mul :: "fpu \<Rightarrow> v4 \<Rightarrow> v4 \<Rightarrow> v4" where
  "v4float_mul U a b = vec_madd U a b v_zero"

definition v4float_div :: "fpu \<Rightarrow> v4 \<Rightarrow> v4 \<Rightarrow> v4" where
  "v4float_div U n a =
     (let a_v = a;
          b_v = vec_re U a_v;
          b_v = vec_madd U (vec_nmsub U b_v a_v v_one) b_v b_v;
          b_v = vec_madd U (vec_nmsub U b_v a_v v_one) b_v b_v
      in vec_madd U n b_v v_zero)"

subsection \<open>v4float logical operators\<close>

definition v4float_lt :: "fpu \<Rightarrow> v4 \<Rightarrow> v4 \<Rightarrow> v4" where
  "v4float_lt U a b = vec_cmplt_fp U a b"

definition v4float_gt :: "fpu \<Rightarrow> v4 \<Rightarrow> v4 \<Rightarrow> v4" where
  "v4float_gt U a b = vec_cmpgt_fp U a b"

definition v4float_eq :: "fpu \<Rightarrow> v4 \<Rightarrow> v4 \<Rightarrow> v4" where
  "v4float_eq U a b = vec_cmpeq_fp U a b"

definition v4float_ne :: "fpu \<Rightarrow> v4 \<Rightarrow> v4 \<Rightarrow> v4" where
  "v4float_ne U a b = vec_xor (vec_cmpeq_fp U a b) v_true"

definition v4float_le :: "fpu \<Rightarrow> v4 \<Rightarrow> v4 \<Rightarrow> v4" where
  "v4float_le U a b = vec_cmple_fp U a b"

definition v4float_ge :: "fpu \<Rightarrow> v4 \<Rightarrow> v4 \<Rightarrow> v4" where
  "v4float_ge U a b = vec_cmpge_fp U a b"

definition v4float_land :: "fpu \<Rightarrow> v4 \<Rightarrow> v4 \<Rightarrow> v4" where
  "v4float_land U a b =
     vec_xor (vec_or (vec_cmpeq_fp U a v_zero) (vec_cmpeq_fp U b v_zero)) v_true"

definition v4float_lor :: "fpu \<Rightarrow> v4 \<Rightarrow> v4 \<Rightarrow> v4" where
  "v4float_lor U a b =
     vec_xor (vec_and (vec_cmpeq_fp U a v_zero) (vec_cmpeq_fp U b v_zero)) v_true"

subsection \<open>v4float miscellaneous functions\<close>

definition rsqrt_approx :: "fpu \<Rightarrow> v4 \<Rightarrow> v4" where
  "rsqrt_approx U a = vec_rsqrte U a"

definition rsqrt :: "fpu \<Rightarrow> v4 \<Rightarrow> v4" where
  "rsqrt U a =
     (let a_v = a;
          b_v = vec_rsqrte U a_v;
          b_v = vec_madd U (vec_nmsub U (vec_madd U b_v b_v v_zero) a_v v_one)
                           (vec_madd U b_v v_half v_zero) b_v
      in vec_madd U (vec_nmsub U (vec_madd U b_v b_v v_zero) a_v v_one)
                    (vec_madd U b_v v_half v_zero) b_v)"

definition rcp_approx :: "fpu \<Rightarrow> v4 \<Rightarrow> v4" where
  "rcp_approx U a = vec_re U a"

definition rcp :: "fpu \<Rightarrow> v4 \<Rightarrow> v4" where
  "rcp U a =
     (let a_v = a;
          b_v = vec_re U a_v;
          b_v = vec_madd U (vec_nmsub U b_v a_v v_one) b_v b_v
      in vec_madd U (vec_nmsub U b_v a_v v_one) b_v b_v)"

subsection \<open>Boolean vectors\<close>

text \<open>A boolean vector has every lane all ones or all zero.\<close>

definition bool_lane :: "word32 \<Rightarrow> bool" where
  "bool_lane w = (w = 0 \<or> w = - 1)"

definition is_bool :: "v4 \<Rightarrow> bool" where
  "is_bool v = (bool_lane (lane0 v) \<and> bool_lane (lane1 v) \<and> bool_lane (lane2 v) \<and> bool_lane (lane3 v))"

subsection \<open>Blocks of memory\<close>

text \<open>
  \<open>in_block n p x\<close>: address \<open>x\<close> lies in the \<open>n\<close> bytes at \<open>p\<close>.
  \<open>apart n p q\<close>: the \<open>n\<close> bytes at \<open>p\<close> and the \<open>n\<close> bytes at \<open>q\<close> do not overlap.
\<close>

definition in_block :: "nat \<Rightarrow> nat \<Rightarrow> nat \<Rightarrow> bool" where
  "in_block n p x = (p \<le> x \<and> x < p + n)"

definition apart :: "nat \<Rightarrow> nat \<Rightarrow> nat \<Rightarrow> bool" where
  "apart n p q = (p + n \<le> q \<or> q + n \<le> p)"

text \<open>
  \<open>clear_of q p\<close>: the sixteen bytes of the \<open>v4\<close> object at \<open>q\<close> and the eight bytes of
  the two-field record at \<open>p\<close> do not overlap.
\<close>

definition clear_of :: "nat \<Rightarrow> nat \<Rightarrow> bool" where
  "clear_of q p = (q + 16 \<le> p \<or> p + 8 \<le> q)"

text \<open>
  Two memories for the concrete instances below, zero but for two \<open>v4\<close> objects:
  \<open>(1,2,3,4)\<close> at address 64 in both, and \<open>(5,6,7,8)\<close> at address 0 in the first, at
  address 80 in the second.
\<close>

definition mem_b_at_0 :: mem where
  "mem_b_at_0 = vec_st (V4 5 6 7 8) 0 0 (vec_st (V4 1 2 3 4) 0 64 mem0)"

definition mem_b_at_80 :: mem where
  "mem_b_at_80 = vec_st (V4 5 6 7 8) 0 80 (vec_st (V4 1 2 3 4) 0 64 mem0)"

subsection \<open>The values of float lanes\<close>

text \<open>
  The \<open>float\<close> of the source is the IEEE-754 single format: bit 31 is the sign, bits
  30 to 23 the biased exponent \<open>e\<close>, bits 22 to 0 the fraction \<open>f\<close>. A lane with
  \<open>e = 255\<close> is an infinity or a NaN; any other lane is finite, with the value
  \<open>f * 2^-149\<close> when \<open>e = 0\<close> (zero and the denormals) and
  \<open>(2^23 + f) * 2^(e - 150)\<close> otherwise, negated when the sign bit is set. \<open>fval\<close>
  writes both cases as a significand times \<open>2^(e - 1) / 2^149\<close>, the difference
  \<open>e - 1\<close> being 0 when \<open>e = 0\<close>.
\<close>

definition f_exp :: "word32 \<Rightarrow> nat" where
  "f_exp w = unat w div 2 ^ 23 mod 256"

definition f_man :: "word32 \<Rightarrow> nat" where
  "f_man w = unat w mod 2 ^ 23"

definition f_neg :: "word32 \<Rightarrow> bool" where
  "f_neg w = (2 ^ 31 \<le> unat w)"

definition is_finite :: "word32 \<Rightarrow> bool" where
  "is_finite w = (f_exp w \<noteq> 255)"

definition fval :: "word32 \<Rightarrow> real" where
  "fval w =
     (if f_neg w then - 1 else 1)
       * real (f_man w + (if f_exp w = 0 then 0 else 2 ^ 23)) * 2 ^ (f_exp w - 1) / 2 ^ 149"

text \<open>
  \<open>within_1e6 w r\<close>: the lane \<open>w\<close> is finite and its relative error against the real
  number \<open>r\<close> is below \<open>1e-6\<close>.
\<close>

definition within_1e6 :: "word32 \<Rightarrow> real \<Rightarrow> bool" where
  "within_1e6 w r = (is_finite w \<and> \<bar>fval w - r\<bar> / r < 1 / 10 ^ 6)"

text \<open>
  \<open>estimates w r\<close>: the lane \<open>w\<close> is finite and within relative error \<open>2^-12\<close> of
  \<open>r\<close>, the accuracy AltiVec documents for \<open>vec_re\<close> and \<open>vec_rsqrte\<close> (one part in
  4096). \<open>rounds w r\<close>: the lane \<open>w\<close> is finite and within relative error \<open>2^-24\<close> of
  \<open>r\<close>, which is what rounding the exact result \<open>r\<close> to the nearest single gives
  when \<open>r\<close> neither overflows nor underflows.
\<close>

definition estimates :: "word32 \<Rightarrow> real \<Rightarrow> bool" where
  "estimates w r = (is_finite w \<and> \<bar>fval w - r\<bar> \<le> \<bar>r\<bar> / 2 ^ 12)"

definition rounds :: "word32 \<Rightarrow> real \<Rightarrow> bool" where
  "rounds w r = (is_finite w \<and> \<bar>fval w - r\<bar> \<le> \<bar>r\<bar> / 2 ^ 24)"

text \<open>
  One refinement step of \<open>rcp\<close> in one lane,
  \<open>vec_madd( vec_nmsub( b_v, a_v, _one ), b_v, b_v )\<close>, and the statement that its two
  instructions round their exact results \<open>-(x * a - 1)\<close> and \<open>r * x + x\<close>.
  \<open>rcp_rounds U a\<close> says so of both steps of \<open>rcp\<close> at the lane \<open>a\<close>, and that the
  estimate they start from is within \<open>2^-12\<close> of \<open>1 / a\<close>.
\<close>

definition rcp_newton :: "fpu \<Rightarrow> word32 \<Rightarrow> word32 \<Rightarrow> word32" where
  "rcp_newton U a x = fp_madd U (fp_nmsub U x a (lane0 v_one)) x x"

definition rcp_step_rounds :: "fpu \<Rightarrow> word32 \<Rightarrow> word32 \<Rightarrow> bool" where
  "rcp_step_rounds U a x =
     (let r = fp_nmsub U x a (lane0 v_one);
          x' = fp_madd U r x x
      in rounds r (- (fval x * fval a - fval (lane0 v_one)))
         \<and> rounds x' (fval r * fval x + fval x))"

definition rcp_rounds :: "fpu \<Rightarrow> word32 \<Rightarrow> bool" where
  "rcp_rounds U a =
     (let x0 = fp_re U a;
          x1 = rcp_newton U a x0
      in estimates x0 (1 / fval a) \<and> rcp_step_rounds U a x0 \<and> rcp_step_rounds U a x1)"

text \<open>
  The same for \<open>rsqrt\<close>, whose step is
  \<open>vec_madd( vec_nmsub( vec_madd( b_v, b_v, _zero ), a_v, _one ),
  vec_madd( b_v, _half, _zero ), b_v )\<close>: four instructions, with the exact results
  \<open>y * y + 0\<close>, \<open>-(s * a - 1)\<close>, \<open>y * 0.5 + 0\<close> and \<open>r * h + y\<close>.
\<close>

definition rsqrt_newton :: "fpu \<Rightarrow> word32 \<Rightarrow> word32 \<Rightarrow> word32" where
  "rsqrt_newton U a y =
     fp_madd U (fp_nmsub U (fp_madd U y y (lane0 v_zero)) a (lane0 v_one))
               (fp_madd U y (lane0 v_half) (lane0 v_zero)) y"

definition rsqrt_step_rounds :: "fpu \<Rightarrow> word32 \<Rightarrow> word32 \<Rightarrow> bool" where
  "rsqrt_step_rounds U a y =
     (let s = fp_madd U y y (lane0 v_zero);
          r = fp_nmsub U s a (lane0 v_one);
          h = fp_madd U y (lane0 v_half) (lane0 v_zero);
          y' = fp_madd U r h y
      in rounds s (fval y * fval y + fval (lane0 v_zero))
         \<and> rounds r (- (fval s * fval a - fval (lane0 v_one)))
         \<and> rounds h (fval y * fval (lane0 v_half) + fval (lane0 v_zero))
         \<and> rounds y' (fval r * fval h + fval y))"

definition rsqrt_rounds :: "fpu \<Rightarrow> word32 \<Rightarrow> bool" where
  "rsqrt_rounds U a =
     (let y0 = fp_rsqrte U a;
          y1 = rsqrt_newton U a y0
      in estimates y0 (1 / sqrt (fval a)) \<and> rsqrt_step_rounds U a y0 \<and> rsqrt_step_rounds U a y1)"

text \<open>
  A processor for the concrete instance below. It returns what round-to-nearest
  IEEE-754 arithmetic returns on the operations that \<open>rcp\<close> performs at \<open>2.0\<close> from
  the estimate \<open>0.5 - 2^-13\<close> (0x3EFFF000), namely \<open>2^-12\<close>, \<open>0.5 - 2^-25\<close>, \<open>2^-24\<close>
  and \<open>0.5\<close>, and on those that \<open>rsqrt\<close> performs at \<open>4.0\<close> from the estimate
  \<open>0.5\<close>, namely \<open>0.25\<close>, \<open>0\<close>, \<open>0.25\<close> and \<open>0.5\<close>.
\<close>

definition fpu_sample :: fpu where
  "fpu_sample =
     \<lparr>fp_re = (\<lambda>a. 0x3EFFF000),
      fp_rsqrte = (\<lambda>a. 0x3F000000),
      fp_madd = (\<lambda>x y z. if x = 0x39800000 then 0x3EFFFFFF
                         else if x = 0x33800000 then 0x3F000000
                         else if z = 0 then 0x3E800000 else 0x3F000000),
      fp_nmsub = (\<lambda>x y z. if x = 0x3EFFF000 then 0x39800000
                          else if x = 0x3EFFFFFF then 0x33800000 else 0),
      fp_eq = (\<lambda>x y. x = y),
      fp_gt = (\<lambda>x y. False),
      fp_ge = (\<lambda>x y. x = y)\<rparr>"

section \<open>Properties\<close>

subsection \<open>Bytes and lanes\<close>

lemma word_of_bytes_byte_of:
  "word_of_bytes (byte_of 0 w) (byte_of (Suc 0) w) (byte_of 2 w) (byte_of 3 w) = w"
proof (rule bit_word_eqI)
  fix n :: nat
  assume "n < LENGTH(32)"
  then consider "n < 8" | "8 \<le> n" "n < 16" | "16 \<le> n" "n < 24" | "24 \<le> n" "n < 32"
    by fastforce
  then show "bit (word_of_bytes (byte_of 0 w) (byte_of (Suc 0) w) (byte_of 2 w) (byte_of 3 w)) n
               = bit w n"
    by cases (auto simp add: word_of_bytes_def byte_of_def bit_simps)
qed

lemma byte_of_word_of_bytes:
  "byte_of 0 (word_of_bytes b0 b1 b2 b3) = b0"
  "byte_of (Suc 0) (word_of_bytes b0 b1 b2 b3) = b1"
  "byte_of 2 (word_of_bytes b0 b1 b2 b3) = b2"
  "byte_of 3 (word_of_bytes b0 b1 b2 b3) = b3"
  unfolding word_of_bytes_def byte_of_def
  by (rule bit_word_eqI; auto simp add: bit_simps dest: bit_imp_le_length)+

subsection \<open>Transpose\<close>

lemma transpose_v4_lanes:
  "transpose_v4 (V4 a0 a1 a2 a3, V4 b0 b1 b2 b3, V4 c0 c1 c2 c3, V4 d0 d1 d2 d3) =
     (V4 a0 b0 c0 d0, V4 a1 b1 c1 d1, V4 a2 b2 c2 d2, V4 a3 b3 c3 d3)"
  by (simp add: transpose_v4_def vec_mergeh_def vec_mergel_def)

lemma transpose_v4_twice:
  "transpose_v4 (transpose_v4 (a, b, c, d)) = (a, b, c, d)"
  by (cases a; cases b; cases c; cases d) (simp add: transpose_v4_lanes)

text \<open>
  C2: \<open>transpose\<close> is the transpose of the 4x4 matrix whose rows are its arguments:
  lane \<open>j\<close> of output vector \<open>i\<close> is lane \<open>i\<close> of input vector \<open>j\<close>, for any lane
  contents. In particular the rows \<open>(0,1,2,3)\<close>, \<open>(4,5,6,7)\<close>, \<open>(8,9,10,11)\<close>,
  \<open>(12,13,14,15)\<close> become \<open>(0,4,8,12)\<close>, \<open>(1,5,9,13)\<close>, \<open>(2,6,10,14)\<close>,
  \<open>(3,7,11,15)\<close>; the second equation states it on the IEEE-754 single encodings of
  0.0f to 15.0f (0x00000000, 0x3F800000, 0x40000000, ..., 0x41700000).
\<close>

theorem transpose_is_matrix_transpose:
  "transpose_v4 (V4 a0 a1 a2 a3, V4 b0 b1 b2 b3, V4 c0 c1 c2 c3, V4 d0 d1 d2 d3) =
     (V4 a0 b0 c0 d0, V4 a1 b1 c1 d1, V4 a2 b2 c2 d2, V4 a3 b3 c3 d3)
   \<and> transpose_v4 (V4 0x00000000 0x3F800000 0x40000000 0x40400000,
                   V4 0x40800000 0x40A00000 0x40C00000 0x40E00000,
                   V4 0x41000000 0x41100000 0x41200000 0x41300000,
                   V4 0x41400000 0x41500000 0x41600000 0x41700000) =
     (V4 0x00000000 0x40800000 0x41000000 0x41400000,
      V4 0x3F800000 0x40A00000 0x41100000 0x41500000,
      V4 0x40000000 0x40C00000 0x41200000 0x41600000,
      V4 0x40400000 0x40E00000 0x41300000 0x41700000)"
  by (simp only: transpose_v4_lanes)

text \<open>
  C3: applying \<open>transpose\<close> twice gives back the four vectors it started from, bit for bit.
\<close>

theorem transpose_involution:
  "transpose_v4 (transpose_v4 (a, b, c, d)) = (a, b, c, d)"
  by (rule transpose_v4_twice)

subsection \<open>Transposed store and load\<close>

lemma store_float_frame:
  "x < p \<or> p + 4 \<le> x \<Longrightarrow> store_float w p m x = m x"
  by (auto simp add: store_float_def)

lemma load_float_store_float_same:
  "load_float (store_float w p m) p = w"
  by (simp add: load_float_def store_float_def word_of_bytes_byte_of)

lemma load_float_store_float_other:
  "q + 4 \<le> p \<or> p + 4 \<le> q \<Longrightarrow> load_float (store_float w p m) q = load_float m q"
  by (auto simp add: load_float_def store_float_frame)

lemma vec_ld_vec_st_same:
  "vec_ld 0 p (vec_st v 0 p m) = v"
  by (cases v)
     (simp add: vec_ld_def vec_st_def Let_def load_float_store_float_same
        load_float_store_float_other)

lemma ea16_apart:
  assumes "ea16 0 p \<noteq> ea16 0 q"
  shows "ea16 0 p + 16 \<le> ea16 0 q \<or> ea16 0 q + 16 \<le> ea16 0 p"
  using assms unfolding ea16_def by auto

lemma vec_ld_vec_st_other:
  assumes "ea16 0 p \<noteq> ea16 0 q"
  shows "vec_ld 0 q (vec_st v 0 p m) = vec_ld 0 q m"
  using ea16_apart [OF assms]
  by (auto simp add: vec_ld_def vec_st_def Let_def load_float_store_float_other)

lemma ea16_aligned: "p mod 16 = 0 \<Longrightarrow> ea16 0 p = p"
  by (auto simp add: ea16_def)

text \<open>
  The round trip needs only that the four sixteen-byte blocks the hardware addresses
  (the pointers with their low four bits cleared) are different.
\<close>

lemma store_load_4x4_tr_ea:
  assumes "distinct [ea16 0 pa, ea16 0 pb, ea16 0 pc, ea16 0 pd]"
  shows "load_4x4_tr pa pb pc pd (store_4x4_tr a b c d pa pb pc pd m) = (a, b, c, d)"
proof -
  obtain ra rb rc rd where r: "transpose_v4 (a, b, c, d) = (ra, rb, rc, rd)"
    by (cases "transpose_v4 (a, b, c, d)") auto
  have st: "store_4x4_tr a b c d pa pb pc pd m =
     vec_st rd 0 pd (vec_st rc 0 pc (vec_st rb 0 pb (vec_st ra 0 pa m)))"
    using r by (simp add: store_4x4_tr_def transpose_v4_def Let_def)
  have ne: "ea16 0 pa \<noteq> ea16 0 pb" "ea16 0 pa \<noteq> ea16 0 pc" "ea16 0 pa \<noteq> ea16 0 pd"
    "ea16 0 pb \<noteq> ea16 0 pc" "ea16 0 pb \<noteq> ea16 0 pd" "ea16 0 pc \<noteq> ea16 0 pd"
    using assms by auto
  let ?m = "store_4x4_tr a b c d pa pb pc pd m"
  have la: "vec_ld 0 pa ?m = ra"
    using ne by (simp add: st vec_ld_vec_st_other [OF not_sym] vec_ld_vec_st_same)
  have lb: "vec_ld 0 pb ?m = rb"
    using ne by (simp add: st vec_ld_vec_st_other [OF not_sym] vec_ld_vec_st_same)
  have lc: "vec_ld 0 pc ?m = rc"
    using ne by (simp add: st vec_ld_vec_st_other [OF not_sym] vec_ld_vec_st_same)
  have ld: "vec_ld 0 pd ?m = rd"
    by (simp add: st vec_ld_vec_st_same)
  have "load_4x4_tr pa pb pc pd ?m = transpose_v4 (ra, rb, rc, rd)"
    by (simp add: load_4x4_tr_def transpose_v4_def Let_def la lb lc ld)
  also have "\<dots> = (a, b, c, d)"
    unfolding r [symmetric] by (rule transpose_v4_twice)
  finally show ?thesis .
qed

text \<open>
  C1: for four vectors \<open>a\<close>, \<open>b\<close>, \<open>c\<close>, \<open>d\<close> and four distinct 16-byte-aligned
  buffers, \<open>store_4x4_tr\<close> followed by \<open>load_4x4_tr\<close> on the same pointers gives
  back \<open>a\<close>, \<open>b\<close>, \<open>c\<close>, \<open>d\<close> bit for bit, whatever the memory held before.
\<close>

theorem store_load_4x4_tr_roundtrip:
  assumes "distinct [pa, pb, pc, pd]"
    and "pa mod 16 = 0" and "pb mod 16 = 0" and "pc mod 16 = 0" and "pd mod 16 = 0"
  shows "load_4x4_tr pa pb pc pd (store_4x4_tr a b c d pa pb pc pd m) = (a, b, c, d)"
  using assms by (intro store_load_4x4_tr_ea) (simp add: ea16_aligned)

theorem store_load_4x4_tr_roundtrip_witness:
  "load_4x4_tr 0 16 32 48
     (store_4x4_tr (V4 1 2 3 4) (V4 5 6 7 8) (V4 9 10 11 12) (V4 13 14 15 16) 0 16 32 48 mem0)
   = (V4 1 2 3 4, V4 5 6 7 8, V4 9 10 11 12, V4 13 14 15 16)"
  using store_load_4x4_tr_roundtrip
    [of 0 16 32 48 "V4 1 2 3 4" "V4 5 6 7 8" "V4 9 10 11 12" "V4 13 14 15 16" mem0]
  by simp

subsection \<open>Transposed store of two fields\<close>

lemma store_float_outside:
  "\<not> in_block 8 p x \<Longrightarrow> store_float w p m x = m x"
  "\<not> in_block 8 p x \<Longrightarrow> store_float w (p + 4) m x = m x"
  by (auto simp add: in_block_def store_float_def)

lemma load_float_store_float_fields:
  "load_float (store_float w (p + 4) m) p = load_float m p"
  "load_float (store_float w p m) (p + 4) = load_float m (p + 4)"
  by (simp_all add: load_float_store_float_other)

lemma load_float_store_float_apart:
  assumes "apart 8 p q"
  shows "load_float (store_float w q m) p = load_float m p"
    and "load_float (store_float w q m) (p + 4) = load_float m (p + 4)"
    and "load_float (store_float w (q + 4) m) p = load_float m p"
    and "load_float (store_float w (q + 4) m) (p + 4) = load_float m (p + 4)"
    and "load_float (store_float w p m) q = load_float m q"
    and "load_float (store_float w p m) (q + 4) = load_float m (q + 4)"
    and "load_float (store_float w (p + 4) m) q = load_float m q"
    and "load_float (store_float w (p + 4) m) (q + 4) = load_float m (q + 4)"
  using assms by (auto simp add: apart_def load_float_store_float_other)

lemma aligned8_apart:
  assumes "p mod 8 = 0" and "q mod 8 = 0" and "p \<noteq> q"
  shows "apart 8 p q"
  using assms unfolding apart_def by presburger

lemma load_v4_store_float_clear:
  assumes "clear_of q p"
  shows "load_v4 (store_float w p m) q = load_v4 m q"
    and "load_v4 (store_float w (p + 4) m) q = load_v4 m q"
  using assms by (auto simp add: clear_of_def load_v4_def load_float_store_float_other)

text \<open>Outside the four records nothing changes, whatever the pointers and the objects.\<close>

lemma store_4x2_tr_frame:
  assumes "\<not> in_block 8 pa x" "\<not> in_block 8 pb x" "\<not> in_block 8 pc x" "\<not> in_block 8 pd x"
  shows "store_4x2_tr a b pa pb pc pd m x = m x"
  using assms by (simp add: store_4x2_tr_def Let_def store_float_outside)

text \<open>
  When the object \<open>b\<close> is clear of the four records, the second read finds it as it
  was before the call, and the function stores the lanes the two objects had on entry.
\<close>

lemma store_4x2_tr_entry_values:
  assumes "clear_of b pa" "clear_of b pb" "clear_of b pc" "clear_of b pd"
  shows "store_4x2_tr a b pa pb pc pd m =
     store_float (lane3 (load_v4 m b)) (pd + 4)
       (store_float (lane2 (load_v4 m b)) (pc + 4)
         (store_float (lane1 (load_v4 m b)) (pb + 4)
           (store_float (lane0 (load_v4 m b)) (pa + 4)
             (store_float (lane3 (load_v4 m a)) pd
               (store_float (lane2 (load_v4 m a)) pc
                 (store_float (lane1 (load_v4 m a)) pb
                   (store_float (lane0 (load_v4 m a)) pa m)))))))"
  using assms by (simp add: store_4x2_tr_def Let_def load_v4_store_float_clear)

lemma store_load_4x2_tr:
  assumes "apart 8 pa pb" "apart 8 pa pc" "apart 8 pa pd"
    "apart 8 pb pc" "apart 8 pb pd" "apart 8 pc pd"
    and "clear_of b pa" "clear_of b pb" "clear_of b pc" "clear_of b pd"
  shows "load_4x2_tr pa pb pc pd (store_4x2_tr a b pa pb pc pd m) = (load_v4 m a, load_v4 m b)"
  using assms(1-6)
  by (cases "load_v4 m a"; cases "load_v4 m b")
     (simp add: store_4x2_tr_entry_values [OF assms(7-10)] load_4x2_tr_def
        load_float_store_float_same load_float_store_float_fields load_float_store_float_apart)

lemma load_v4_unchanged:
  assumes "clear_of q pa" "clear_of q pb" "clear_of q pc" "clear_of q pd"
  shows "load_v4 (store_4x2_tr a b pa pb pc pd m) q = load_v4 m q"
  using assms by (simp add: store_4x2_tr_def Let_def load_v4_store_float_clear)

text \<open>
  C9, as stated for all vectors \<open>a\<close>, \<open>b\<close> and destination pointers, fails when the
  object \<open>b\<close> lies in a destination record, even with four distinct, 8-byte-aligned
  pointers. Here \<open>a = (1,2,3,4)\<close> is at 64, \<open>b = (5,6,7,8)\<close> is at 0 and the
  destinations are 0, 16, 32, 48: the store of lane 0 of \<open>a\<close> through \<open>pa\<close> overwrites
  lane 0 of \<open>b\<close> before \<open>b\<close> is read, so field 1 of \<open>pa\<close> receives 1, not 5, and
  \<open>b\<close> ends as \<open>(1,1,7,8)\<close>.
\<close>

theorem store_4x2_tr_aliased_counterexample:
  "load_v4 mem_b_at_0 64 = V4 1 2 3 4
   \<and> load_v4 mem_b_at_0 0 = V4 5 6 7 8
   \<and> load_float (store_4x2_tr 64 0 0 16 32 48 mem_b_at_0) (0 + 4) = 1
   \<and> load_float (store_4x2_tr 64 0 0 16 32 48 mem_b_at_0) (0 + 4) \<noteq> lane0 (load_v4 mem_b_at_0 0)
   \<and> load_v4 (store_4x2_tr 64 0 0 16 32 48 mem_b_at_0) 0 = V4 1 1 7 8
   \<and> load_v4 (store_4x2_tr 64 0 0 16 32 48 mem_b_at_0) 0 \<noteq> load_v4 mem_b_at_0 0"
  by (simp add: mem_b_at_0_def store_4x2_tr_def Let_def load_v4_def vec_st_def ea16_def
        load_float_store_float_same load_float_store_float_other)

text \<open>
  C9, amended. For all arguments, \<open>store_4x2_tr\<close> leaves every byte outside the four
  eight-byte destination records as it was. When the four records do not overlap one
  another, as with distinct 8-byte-aligned pointers, and the object \<open>b\<close> does not
  overlap any of them, field 0 of each destination then holds the corresponding lane of
  \<open>a\<close> and field 1 the corresponding lane of \<open>b\<close>, the lanes the objects had on entry.
  Each of \<open>a\<close> and \<open>b\<close> is unchanged when it does not overlap any destination record.
\<close>

theorem store_4x2_tr_fields_and_frame:
  "(\<not> in_block 8 pa x \<and> \<not> in_block 8 pb x \<and> \<not> in_block 8 pc x \<and> \<not> in_block 8 pd x
      \<longrightarrow> store_4x2_tr a b pa pb pc pd m x = m x)
   \<and> (apart 8 pa pb \<and> apart 8 pa pc \<and> apart 8 pa pd
      \<and> apart 8 pb pc \<and> apart 8 pb pd \<and> apart 8 pc pd
      \<and> clear_of b pa \<and> clear_of b pb \<and> clear_of b pc \<and> clear_of b pd
      \<longrightarrow> load_float (store_4x2_tr a b pa pb pc pd m) pa = lane0 (load_v4 m a)
        \<and> load_float (store_4x2_tr a b pa pb pc pd m) pb = lane1 (load_v4 m a)
        \<and> load_float (store_4x2_tr a b pa pb pc pd m) pc = lane2 (load_v4 m a)
        \<and> load_float (store_4x2_tr a b pa pb pc pd m) pd = lane3 (load_v4 m a)
        \<and> load_float (store_4x2_tr a b pa pb pc pd m) (pa + 4) = lane0 (load_v4 m b)
        \<and> load_float (store_4x2_tr a b pa pb pc pd m) (pb + 4) = lane1 (load_v4 m b)
        \<and> load_float (store_4x2_tr a b pa pb pc pd m) (pc + 4) = lane2 (load_v4 m b)
        \<and> load_float (store_4x2_tr a b pa pb pc pd m) (pd + 4) = lane3 (load_v4 m b))
   \<and> (clear_of a pa \<and> clear_of a pb \<and> clear_of a pc \<and> clear_of a pd
      \<longrightarrow> load_v4 (store_4x2_tr a b pa pb pc pd m) a = load_v4 m a)
   \<and> (clear_of b pa \<and> clear_of b pb \<and> clear_of b pc \<and> clear_of b pd
      \<longrightarrow> load_v4 (store_4x2_tr a b pa pb pc pd m) b = load_v4 m b)
   \<and> (pa mod 8 = 0 \<and> pb mod 8 = 0 \<and> pa \<noteq> pb \<longrightarrow> apart 8 pa pb)"
proof (intro conjI impI)
  assume "\<not> in_block 8 pa x \<and> \<not> in_block 8 pb x \<and> \<not> in_block 8 pc x \<and> \<not> in_block 8 pd x"
  then show "store_4x2_tr a b pa pb pc pd m x = m x"
    by (simp add: store_4x2_tr_frame)
next
  assume h: "apart 8 pa pb \<and> apart 8 pa pc \<and> apart 8 pa pd
      \<and> apart 8 pb pc \<and> apart 8 pb pd \<and> apart 8 pc pd
      \<and> clear_of b pa \<and> clear_of b pb \<and> clear_of b pc \<and> clear_of b pd"
  let ?m = "store_4x2_tr a b pa pb pc pd m"
  have ap: "apart 8 pa pb" "apart 8 pa pc" "apart 8 pa pd"
    "apart 8 pb pc" "apart 8 pb pd" "apart 8 pc pd"
    and cb: "clear_of b pa" "clear_of b pb" "clear_of b pc" "clear_of b pd"
    using h by simp_all
  have ld: "load_4x2_tr pa pb pc pd ?m = (load_v4 m a, load_v4 m b)"
    by (rule store_load_4x2_tr [OF ap cb])
  show "load_float ?m pa = lane0 (load_v4 m a)" "load_float ?m pb = lane1 (load_v4 m a)"
    "load_float ?m pc = lane2 (load_v4 m a)" "load_float ?m pd = lane3 (load_v4 m a)"
    using ld by (cases "load_v4 m a"; simp add: load_4x2_tr_def)+
  show "load_float ?m (pa + 4) = lane0 (load_v4 m b)"
    "load_float ?m (pb + 4) = lane1 (load_v4 m b)"
    "load_float ?m (pc + 4) = lane2 (load_v4 m b)"
    "load_float ?m (pd + 4) = lane3 (load_v4 m b)"
    using ld by (cases "load_v4 m b"; simp add: load_4x2_tr_def)+
next
  assume "clear_of a pa \<and> clear_of a pb \<and> clear_of a pc \<and> clear_of a pd"
  then show "load_v4 (store_4x2_tr a b pa pb pc pd m) a = load_v4 m a"
    by (simp add: load_v4_unchanged)
next
  assume "clear_of b pa \<and> clear_of b pb \<and> clear_of b pc \<and> clear_of b pd"
  then show "load_v4 (store_4x2_tr a b pa pb pc pd m) b = load_v4 m b"
    by (simp add: load_v4_unchanged)
next
  assume "pa mod 8 = 0 \<and> pb mod 8 = 0 \<and> pa \<noteq> pb"
  then show "apart 8 pa pb"
    by (simp add: aligned8_apart)
qed

theorem store_4x2_tr_fields_and_frame_witness:
  "load_float (store_4x2_tr 64 80 0 8 16 24 mem_b_at_80) 0 = 1
   \<and> load_float (store_4x2_tr 64 80 0 8 16 24 mem_b_at_80) 12 = 6
   \<and> load_v4 (store_4x2_tr 64 80 0 8 16 24 mem_b_at_80) 64 = V4 1 2 3 4
   \<and> load_v4 (store_4x2_tr 64 80 0 8 16 24 mem_b_at_80) 80 = V4 5 6 7 8
   \<and> store_4x2_tr 64 80 0 8 16 24 mem_b_at_80 32 = mem_b_at_80 32
   \<and> apart 8 0 8"
proof -
  have a: "load_v4 mem_b_at_80 64 = V4 1 2 3 4" and b: "load_v4 mem_b_at_80 80 = V4 5 6 7 8"
    by (simp_all add: mem_b_at_80_def load_v4_def vec_st_def ea16_def
          load_float_store_float_same load_float_store_float_other)
  have ap: "apart 8 0 8" "apart 8 0 16" "apart 8 0 24" "apart 8 8 16" "apart 8 8 24"
    "apart 8 16 24"
    by (simp_all add: aligned8_apart)
  show ?thesis
    using store_4x2_tr_fields_and_frame [of 0 32 8 16 24 64 80 mem_b_at_80]
    by (simp add: a b ap clear_of_def in_block_def)
qed

subsection \<open>Shuffle and splat\<close>

lemma perm_lane_P:
  "i \<in> {0, 1, 2, 3} \<Longrightarrow>
   perm_lane (bytes_of_v4 a @ bytes_of_v4 a)
     (word_of_bytes (of_int (4*i)) (of_int (4*i+1)) (of_int (4*i+2)) (of_int (4*i+3)))
     = lane a (nat i)"
  by (cases a)
     (auto simp add: perm_lane_def byte_of_word_of_bytes bytes_of_word_def word_of_bytes_byte_of)

lemma vec_perm_P:
  assumes "i0 \<in> {0, 1, 2, 3}" "i1 \<in> {0, 1, 2, 3}" "i2 \<in> {0, 1, 2, 3}" "i3 \<in> {0, 1, 2, 3}"
  shows "vec_perm a a (P i0 i1 i2 i3) =
    V4 (lane a (nat i0)) (lane a (nat i1)) (lane a (nat i2)) (lane a (nat i3))"
  using assms by (simp only: vec_perm_def P_def map_v4.simps perm_lane_P)

text \<open>Every entry of the table is the control vector of its own index.\<close>

lemma perm_table_block:
  assumes "i0 \<in> {0, 1, 2, 3}" "i1 \<in> {0, 1, 2, 3}" "i2 \<in> {0, 1, 2, 3}"
  shows "perm_table ! nat (i0 + i1*4 + i2*16 + 0*64) = P i0 i1 i2 0"
    and "perm_table ! nat (i0 + i1*4 + i2*16 + 1*64) = P i0 i1 i2 1"
    and "perm_table ! nat (i0 + i1*4 + i2*16 + 2*64) = P i0 i1 i2 2"
    and "perm_table ! nat (i0 + i1*4 + i2*16 + 3*64) = P i0 i1 i2 3"
  using assms by (auto simp add: perm_table_def)

lemma perm_table_nth:
  assumes "i0 \<in> {0, 1, 2, 3}" "i1 \<in> {0, 1, 2, 3}" "i2 \<in> {0, 1, 2, 3}" "i3 \<in> {0, 1, 2, 3}"
  shows "perm_table ! nat (i0 + i1*4 + i2*16 + i3*64) = P i0 i1 i2 i3"
proof -
  from assms(4) consider "i3 = 0" | "i3 = 1" | "i3 = 2" | "i3 = 3"
    by auto
  then show ?thesis
    using perm_table_block [OF assms(1-3)] by cases simp_all
qed

lemma shuffle_lanes:
  assumes "i0 \<in> {0, 1, 2, 3}" "i1 \<in> {0, 1, 2, 3}" "i2 \<in> {0, 1, 2, 3}" "i3 \<in> {0, 1, 2, 3}"
  shows "shuffle a i0 i1 i2 i3 =
    Some (V4 (lane a (nat i0)) (lane a (nat i1)) (lane a (nat i2)) (lane a (nat i3)))"
proof -
  have "0 \<le> i0 + i1*4 + i2*16 + i3*64" and "i0 + i1*4 + i2*16 + i3*64 < 256"
    using assms by auto
  then show ?thesis
    using assms by (simp add: shuffle_def perm_table_nth vec_perm_P)
qed

lemma bytes_P_identity:
  "bytes_of_v4 (P 0 1 2 3) = [0, 1, 2, 3, 4, 5, 6, 7, 8, 9, 10, 11, 12, 13, 14, 15]"
  by (simp add: P_def bytes_of_word_def byte_of_word_of_bytes)

text \<open>
  C8: \<open>shuffle( a, 0, 1, 2, 3 )\<close> returns \<open>a\<close>, bit for bit, for every vector \<open>a\<close>:
  the index \<open>0 + 1*4 + 2*16 + 3*64\<close> reads the table entry \<open>P(0,1,2,3)\<close>, whose
  sixteen bytes are \<open>0, 1, ..., 15\<close>, the identity byte permutation.
\<close>

theorem shuffle_identity:
  "shuffle a 0 1 2 3 = Some a
   \<and> perm_table ! nat (0 + 1*4 + 2*16 + 3*64) = P 0 1 2 3
   \<and> bytes_of_v4 (P 0 1 2 3) = [0, 1, 2, 3, 4, 5, 6, 7, 8, 9, 10, 11, 12, 13, 14, 15]"
proof -
  have "shuffle a 0 1 2 3 = Some a"
    by (cases a) (simp add: shuffle_lanes)
  moreover have "perm_table ! nat (0 + 1*4 + 2*16 + 3*64) = P 0 1 2 3"
    by (rule perm_table_nth) simp_all
  ultimately show ?thesis
    by (simp only: bytes_P_identity simp_thms)
qed

text \<open>
  C10: for \<open>n\<close> in \<open>{0, 1, 2, 3}\<close>, \<open>splat( a, n )\<close> and \<open>shuffle( a, n, n, n, n )\<close>
  return the same vector, every lane of which is lane \<open>n\<close> of \<open>a\<close>; the index
  \<open>n + n*4 + n*16 + n*64\<close> is \<open>85 * n\<close> and the table entry there is \<open>P(n,n,n,n)\<close>.
\<close>

theorem splat_is_shuffle:
  assumes "n \<in> {0, 1, 2, 3}"
  shows "splat a n = shuffle a n n n n
       \<and> shuffle a n n n n =
           Some (V4 (lane a (nat n)) (lane a (nat n)) (lane a (nat n)) (lane a (nat n)))
       \<and> n + n*4 + n*16 + n*64 = 85 * n
       \<and> perm_table ! nat (85 * n) = P n n n n"
proof -
  have "splat a n = Some (V4 (lane a (nat n)) (lane a (nat n)) (lane a (nat n)) (lane a (nat n)))"
    using assms by (auto simp add: splat_def vec_splat_def)
  moreover have "perm_table ! nat (n + n*4 + n*16 + n*64) = P n n n n"
    by (rule perm_table_nth [OF assms assms assms assms])
  moreover have "n + n*4 + n*16 + n*64 = 85 * n"
    by simp
  ultimately show ?thesis
    using assms by (simp add: shuffle_lanes)
qed

theorem splat_is_shuffle_witness:
  "splat (V4 1 2 3 4) 2 = shuffle (V4 1 2 3 4) 2 2 2 2
   \<and> shuffle (V4 1 2 3 4) 2 2 2 2 = Some (V4 3 3 3 3)
   \<and> perm_table ! 170 = P 2 2 2 2"
  using splat_is_shuffle [of 2 "V4 1 2 3 4"] by simp

subsection \<open>Select by a boolean mask\<close>

lemma merge_lanes:
  "merge (V4 c0 c1 c2 c3) (V4 t0 t1 t2 t3) (V4 f0 f1 f2 f3) =
     V4 ((f0 AND NOT c0) OR (t0 AND c0)) ((f1 AND NOT c1) OR (t1 AND c1))
        ((f2 AND NOT c2) OR (t2 AND c2)) ((f3 AND NOT c3) OR (t3 AND c3))"
  by (simp add: merge_def vec_sel_def)

lemma merge_lane_true:
  "lane c i = - 1 \<Longrightarrow> lane (merge c t f) i = lane t i"
  by (cases c; cases t; cases f) (simp add: merge_lanes split: if_splits)

lemma merge_lane_false:
  "lane c i = 0 \<Longrightarrow> lane (merge c t f) i = lane f i"
  by (cases c; cases t; cases f) (simp add: merge_lanes split: if_splits)

lemma is_bool_lane: "is_bool c \<Longrightarrow> lane c i = - 1 \<or> lane c i = 0"
  by (cases c) (auto simp add: is_bool_def bool_lane_def)

lemma merge_v_true: "merge v_true t f = t"
  by (cases t; cases f) (simp add: merge_lanes v_true_def)

lemma merge_v_false: "merge v_false t f = f"
  by (cases t; cases f) (simp add: merge_lanes v_false_def)

text \<open>
  C6: for a boolean vector \<open>c\<close> and a lane \<open>i\<close>, lane \<open>i\<close> of \<open>merge( c, t, f )\<close> is
  lane \<open>i\<close> of \<open>t\<close> where lane \<open>i\<close> of \<open>c\<close> is all ones and lane \<open>i\<close> of \<open>f\<close> where
  it is all zero, and one of the two is the case; with the all-true mask \<open>merge\<close>
  returns \<open>t\<close>, with the all-false mask \<open>f\<close>.
\<close>

theorem merge_selects_by_mask:
  assumes "is_bool c" and "i < 4"
  shows "(lane c i = - 1 \<longrightarrow> lane (merge c t f) i = lane t i)
       \<and> (lane c i = 0 \<longrightarrow> lane (merge c t f) i = lane f i)
       \<and> (lane c i = - 1 \<or> lane c i = 0)
       \<and> merge v_true t f = t
       \<and> merge v_false t f = f"
  using assms
  by (simp add: merge_lane_true merge_lane_false is_bool_lane merge_v_true merge_v_false)

theorem merge_selects_by_mask_witness:
  "lane (merge (V4 (- 1) 0 (- 1) 0) (V4 1 2 3 4) (V4 5 6 7 8)) 0 = 1
   \<and> lane (merge (V4 (- 1) 0 (- 1) 0) (V4 1 2 3 4) (V4 5 6 7 8)) 1 = 6
   \<and> merge v_true (V4 1 2 3 4) (V4 5 6 7 8) = V4 1 2 3 4"
  using merge_selects_by_mask [of "V4 (- 1) 0 (- 1) 0" 0 "V4 1 2 3 4" "V4 5 6 7 8"]
        merge_selects_by_mask [of "V4 (- 1) 0 (- 1) 0" 1 "V4 1 2 3 4" "V4 5 6 7 8"]
  by (simp add: is_bool_def bool_lane_def)

subsection \<open>Comparisons give boolean vectors\<close>

lemma bool_lane_cmp_mask: "bool_lane (cmp_mask t)"
  by (simp add: bool_lane_def cmp_mask_def)

lemma bool_lane_ops:
  "bool_lane x \<Longrightarrow> bool_lane (NOT x)"
  "bool_lane x \<Longrightarrow> bool_lane y \<Longrightarrow> bool_lane (x AND y)"
  "bool_lane x \<Longrightarrow> bool_lane y \<Longrightarrow> bool_lane (x OR y)"
  by (auto simp add: bool_lane_def)

lemma is_bool_cmp:
  "is_bool (map2_v4 (\<lambda>x y. cmp_mask (r x y)) a b)"
  by (cases a; cases b) (simp add: is_bool_def bool_lane_cmp_mask)

lemma is_bool_xor_true_left:
  "is_bool v \<Longrightarrow> is_bool (vec_xor v_true v)"
  by (cases v) (simp add: is_bool_def bool_lane_ops vec_xor_def v_true_def)

lemma is_bool_xor_true_right:
  "is_bool v \<Longrightarrow> is_bool (vec_xor v v_true)"
  by (cases v) (simp add: is_bool_def bool_lane_ops vec_xor_def v_true_def)

lemma is_bool_vec_and:
  "is_bool u \<Longrightarrow> is_bool v \<Longrightarrow> is_bool (vec_and u v)"
  by (cases u; cases v) (simp add: is_bool_def bool_lane_ops vec_and_def)

lemma is_bool_vec_or:
  "is_bool u \<Longrightarrow> is_bool v \<Longrightarrow> is_bool (vec_or u v)"
  by (cases u; cases v) (simp add: is_bool_def bool_lane_ops vec_or_def)

lemma is_bool_vec_cmp:
  "is_bool (vec_cmpeq a b)" "is_bool (vec_cmpgt a b)" "is_bool (vec_cmplt a b)"
  "is_bool (vec_cmpeq_fp U a b)" "is_bool (vec_cmpgt_fp U a b)" "is_bool (vec_cmpge_fp U a b)"
  "is_bool (vec_cmplt_fp U a b)" "is_bool (vec_cmple_fp U a b)"
  by (simp_all add: vec_cmpeq_def vec_cmpgt_def vec_cmplt_def vec_cmpeq_fp_def vec_cmpgt_fp_def
        vec_cmpge_fp_def vec_cmplt_fp_def vec_cmple_fp_def is_bool_cmp)

text \<open>
  C7: each of the comparison operators \<open><\<close>, \<open>>\<close>, \<open>==\<close>, \<open>!=\<close>, \<open><=\<close>, \<open>>=\<close>,
  \<open>&&\<close>, \<open>||\<close> on integer vectors, and each of the same eight on float vectors,
  returns a boolean vector (every lane all ones or all zero), for all operands and
  whatever the processor's floating-point comparisons decide.
\<close>

theorem comparisons_are_boolean:
  "is_bool (v4int_lt a b) \<and> is_bool (v4int_gt a b) \<and> is_bool (v4int_eq a b)
   \<and> is_bool (v4int_ne a b) \<and> is_bool (v4int_le a b) \<and> is_bool (v4int_ge a b)
   \<and> is_bool (v4int_land a b) \<and> is_bool (v4int_lor a b)
   \<and> is_bool (v4float_lt U a b) \<and> is_bool (v4float_gt U a b) \<and> is_bool (v4float_eq U a b)
   \<and> is_bool (v4float_ne U a b) \<and> is_bool (v4float_le U a b) \<and> is_bool (v4float_ge U a b)
   \<and> is_bool (v4float_land U a b) \<and> is_bool (v4float_lor U a b)"
  by (simp add: v4int_lt_def v4int_gt_def v4int_eq_def v4int_ne_def v4int_le_def v4int_ge_def
        v4int_land_def v4int_lor_def v4float_lt_def v4float_gt_def v4float_eq_def v4float_ne_def
        v4float_le_def v4float_ge_def v4float_land_def v4float_lor_def
        is_bool_vec_cmp is_bool_xor_true_left is_bool_xor_true_right
        is_bool_vec_and is_bool_vec_or)

subsection \<open>Division\<close>

text \<open>
  C4: \<open>n / a\<close> is the same vector, bit for bit, as \<open>n * rcp( a )\<close>: both multiply
  \<open>n\<close> by the reciprocal estimate of \<open>a\<close> refined by the same two Newton-Raphson
  steps, with the same instructions in the same order, whatever those instructions
  compute. No divide instruction occurs: \<open>operator /\<close> uses \<open>vec_re\<close>, \<open>vec_nmsub\<close> and
  \<open>vec_madd\<close> only.
\<close>

theorem div_is_mul_rcp:
  "v4float_div U n a = v4float_mul U n (rcp U a)"
  by (simp add: v4float_div_def v4float_mul_def rcp_def Let_def)

subsection \<open>Accuracy of the refined reciprocal and reciprocal square root\<close>

text \<open>The error of one Newton-Raphson step, over the reals.\<close>

lemma abs_mult_le:
  fixes x y a b :: real
  assumes "\<bar>x\<bar> \<le> a" and "\<bar>y\<bar> \<le> b"
  shows "\<bar>x * y\<bar> \<le> a * b"
proof -
  have "0 \<le> a" using assms(1) by linarith
  have "\<bar>x * y\<bar> = \<bar>x\<bar> * \<bar>y\<bar>" by (simp add: abs_mult)
  also have "\<dots> \<le> a * b"
    using assms \<open>0 \<le> a\<close> by (intro mult_mono) auto
  finally show ?thesis .
qed

lemma nr_rcp_step:
  fixes A X R X' \<epsilon> :: real
  assumes A: "0 < A"
    and e: "\<bar>1 - A * X\<bar> \<le> \<epsilon>" and eps: "\<epsilon> \<le> 1 / 4096"
    and R: "\<bar>R - (- (X * A - 1))\<bar> \<le> \<bar>- (X * A - 1)\<bar> / 2 ^ 24"
    and X': "\<bar>X' - (R * X + X)\<bar> \<le> \<bar>R * X + X\<bar> / 2 ^ 24"
  shows "\<bar>1 - A * X'\<bar> \<le> \<epsilon> * \<epsilon> + 2 / 2 ^ 24"
proof -
  define u :: real where "u = 1 / 2 ^ 24"
  define e where "e = 1 - A * X"
  define d1 where "d1 = R - e"
  define S where "S = R * X + X"
  define d2 where "d2 = A * (X' - S)"
  have u: "u = 1 / 16777216" by (simp add: u_def)
  have e_le: "\<bar>e\<bar> \<le> \<epsilon>" using e by (simp add: e_def)
  have eps0: "0 \<le> \<epsilon>" using e_le by linarith
  have ee: "\<bar>e * e\<bar> \<le> \<epsilon> * \<epsilon>" by (rule abs_mult_le [OF e_le e_le])
  have ee': "\<epsilon> * \<epsilon> \<le> 1 / 4096 * (1 / 4096)"
    using eps eps0 by (intro mult_mono) auto
  have d1_le: "\<bar>d1\<bar> \<le> u * \<epsilon>"
  proof -
    have "\<bar>d1\<bar> \<le> \<bar>e\<bar> * u" using R by (simp add: d1_def e_def u_def algebra_simps)
    also have "\<dots> \<le> \<epsilon> * u" using e_le by (intro mult_right_mono) (auto simp: u)
    finally show ?thesis by (simp add: mult.commute)
  qed
  have d1_le': "\<bar>d1\<bar> \<le> u / 4096"
    using d1_le eps by (simp add: u) 
  have one_e: "\<bar>1 - e\<bar> \<le> 2" using e_le eps by linarith
  have d1e: "\<bar>d1 * (1 - e)\<bar> \<le> u / 4096 * 2"
    by (rule abs_mult_le [OF d1_le' one_e])
  have AS: "A * S = 1 - e * e + d1 * (1 - e)"
    by (simp add: S_def d1_def e_def algebra_simps)
  have AS_le: "\<bar>A * S\<bar> \<le> 3 / 2"
    using ee ee' d1e unfolding AS u by linarith
  have d2_le: "\<bar>d2\<bar> \<le> u * \<bar>A * S\<bar>"
  proof -
    have "\<bar>d2\<bar> = A * \<bar>X' - S\<bar>" using A by (simp add: d2_def abs_mult)
    also have "\<dots> \<le> A * (\<bar>S\<bar> * u)"
      using X' A by (intro mult_left_mono) (auto simp: S_def u_def)
    also have "\<dots> = u * \<bar>A * S\<bar>" using A by (simp add: abs_mult)
    finally show ?thesis .
  qed
  have d2_le': "\<bar>d2\<bar> \<le> u * (3 / 2)"
  proof -
    have "u * \<bar>A * S\<bar> \<le> u * (3 / 2)"
      using AS_le by (intro mult_left_mono) (auto simp: u)
    with d2_le show ?thesis by linarith
  qed
  have final: "1 - A * X' = e * e - d1 * (1 - e) - d2"
    by (simp add: d2_def S_def d1_def e_def algebra_simps)
  have k: "(2::real) / 2 ^ 24 = 2 / 16777216" by simp
  show ?thesis
    using ee d1e d2_le' unfolding final u k by linarith
qed

lemma abs_diff_scale:
  fixes a b c :: real
  assumes "0 < c"
  shows "\<bar>a * c - b * c\<bar> = \<bar>a - b\<bar> * c"
proof -
  have "a * c - b * c = (a - b) * c" by (simp add: algebra_simps)
  then show ?thesis using assms by (simp add: abs_mult)
qed

lemma nr_rsqrt_step:
  fixes A s2 Y S r h Y' \<eta> :: real
  assumes s2: "0 < s2" and A: "A = s2 * s2"
    and T: "\<bar>Y * s2 - 1\<bar> \<le> \<eta>" and eta: "\<eta> \<le> 1 / 4096"
    and S: "\<bar>S - (Y * Y + 0)\<bar> \<le> \<bar>Y * Y + 0\<bar> / 2 ^ 24"
    and r: "\<bar>r - (- (S * A - 1))\<bar> \<le> \<bar>- (S * A - 1)\<bar> / 2 ^ 24"
    and h: "\<bar>h - (Y * (1 / 2) + 0)\<bar> \<le> \<bar>Y * (1 / 2) + 0\<bar> / 2 ^ 24"
    and Y': "\<bar>Y' - (r * h + Y)\<bar> \<le> \<bar>r * h + Y\<bar> / 2 ^ 24"
  shows "\<bar>Y' * s2 - 1\<bar> \<le> 2 * (\<eta> * \<eta>) + 2 / 2 ^ 24"
proof -
  define u :: real where "u = 1 / 2 ^ 24"
  have u: "u = 1 / 16777216" by (simp add: u_def)
  define x where "x = Y * s2 - 1"
  define P where "P = (1 + x) * (1 + x)"
  define dS where "dS = S * A - P"
  define q0 where "q0 = - (2 * x + x * x)"
  define q where "q = 1 - S * A"
  define dr where "dr = r - q"
  define g where "g = dr - dS"
  define H where "H = h * s2"
  define dH where "dH = H - (1 / 2 + x / 2)"
  define Z where "Z = r * H + (1 + x)"
  define dZ where "dZ = Y' * s2 - Z"
  have Ys: "Y * s2 = 1 + x" by (simp add: x_def)
  have x_le: "\<bar>x\<bar> \<le> \<eta>" using T by (simp add: x_def)
  have eta0: "0 \<le> \<eta>" using x_le by linarith
  have xx: "\<bar>x * x\<bar> \<le> \<eta> * \<eta>" by (rule abs_mult_le [OF x_le x_le])
  have ee: "\<eta> * \<eta> \<le> \<eta> * (1 / 4096)"
    using eta eta0 by (intro mult_left_mono) auto
  have xxx: "\<bar>x * x * x\<bar> \<le> \<eta> * \<eta> * (1 / 4096)"
  proof -
    have "\<bar>x\<bar> \<le> 1 / 4096" using x_le eta by linarith
    from abs_mult_le [OF xx this] show ?thesis .
  qed
  have P_eq: "P = Y * Y * A" by (simp add: P_def Ys [symmetric] A algebra_simps)
  have P_alt: "P = 1 + 2 * x + x * x" by (simp add: P_def algebra_simps)
  have P0: "0 \<le> P" by (simp add: P_def)
  have P_le: "P \<le> 1001 / 1000"
    using x_le xx ee eta unfolding P_alt by linarith
  have dS_le: "\<bar>dS\<bar> \<le> u * P"
  proof -
    have "0 < A" using s2 by (simp add: A)
    have "\<bar>dS\<bar> = \<bar>S - Y * Y\<bar> * A"
      unfolding dS_def P_eq by (rule abs_diff_scale [OF \<open>0 < A\<close>])
    also have "\<dots> \<le> (\<bar>Y * Y\<bar> * u) * A"
      using S \<open>0 < A\<close> by (intro mult_right_mono) (auto simp: u_def)
    also have "\<dots> = u * P"
      using \<open>0 < A\<close> by (simp add: P_eq abs_mult)
    finally show ?thesis .
  qed
  have dS_le': "\<bar>dS\<bar> \<le> 1001 / 1000 * u"
  proof -
    have "u * P \<le> u * (1001 / 1000)" using P_le by (intro mult_left_mono) (auto simp: u)
    with dS_le show ?thesis by linarith
  qed
  have q0_le: "\<bar>q0\<bar> \<le> 1 / 1000"
    using x_le xx ee eta unfolding q0_def by linarith
  have q_eq: "q = q0 - dS" by (simp add: q_def q0_def dS_def P_alt)
  have q_le: "\<bar>q\<bar> \<le> 2 / 1000"
    using q0_le dS_le' unfolding q_eq u by linarith
  have dr_le: "\<bar>dr\<bar> \<le> 2 / 1000 * u"
  proof -
    have "\<bar>dr\<bar> \<le> \<bar>q\<bar> * u" using r by (simp add: dr_def q_def u_def)
    also have "\<dots> \<le> 2 / 1000 * u" using q_le by (intro mult_right_mono) (auto simp: u)
    finally show ?thesis .
  qed
  have g_le: "\<bar>g\<bar> \<le> 1003 / 1000 * u"
    using dr_le dS_le' unfolding g_def by linarith
  have r_eq: "r = q0 + g" by (simp add: g_def dr_def q_eq)
  have dH_le: "\<bar>dH\<bar> \<le> 501 / 1000 * u"
  proof -
    have "1 / 2 + x / 2 = Y * (1 / 2) * s2" by (simp add: Ys [symmetric] add_divide_distrib)
    then have "\<bar>dH\<bar> = \<bar>h - Y * (1 / 2)\<bar> * s2"
      unfolding dH_def H_def by (simp only: abs_diff_scale [OF s2])
    also have "\<dots> \<le> (\<bar>Y * (1 / 2)\<bar> * u) * s2"
      using h s2 by (intro mult_right_mono) (auto simp: u_def)
    also have "\<dots> = \<bar>1 + x\<bar> / 2 * u"
      using s2 by (simp add: Ys [symmetric] abs_mult)
    also have "\<dots> \<le> 501 / 1000 * u"
    proof -
      have "\<bar>1 + x\<bar> \<le> 1002 / 1000" using x_le eta by linarith
      then have "\<bar>1 + x\<bar> / 2 \<le> 501 / 1000" by simp
      then show ?thesis by (intro mult_right_mono) (auto simp: u)
    qed
    finally show ?thesis .
  qed
  have H_eq: "H = 1 / 2 + x / 2 + dH" by (simp add: dH_def)
  have H_le: "\<bar>H\<bar> \<le> 501 / 1000"
    using dH_le x_le eta unfolding H_eq u by linarith
  have q0dH: "\<bar>q0 * dH\<bar> \<le> 1 / 1000 * (501 / 1000 * u)"
    by (rule abs_mult_le [OF q0_le dH_le])
  have gH: "\<bar>g * H\<bar> \<le> 1003 / 1000 * u * (501 / 1000)"
    by (rule abs_mult_le [OF g_le H_le])
  have Z1: "Z - 1 = - (3 / 2) * (x * x) - x * x * x / 2 + q0 * dH + g * H"
    by (simp add: Z_def r_eq H_eq q0_def algebra_simps)
  have Z1_le: "\<bar>Z - 1\<bar> \<le> 151 / 100 * (\<eta> * \<eta>) + 504 / 1000 * u"
    using xx xxx q0dH gH unfolding Z1 u by linarith
  have Z_le: "\<bar>Z\<bar> \<le> 1001 / 1000"
    using Z1_le ee eta eta0 unfolding u by linarith
  have Z_eq: "Z = (r * h + Y) * s2" by (simp add: Z_def H_def Ys [symmetric] algebra_simps)
  have dZ_le: "\<bar>dZ\<bar> \<le> 1001 / 1000 * u"
  proof -
    have "\<bar>dZ\<bar> = \<bar>Y' - (r * h + Y)\<bar> * s2"
      unfolding dZ_def Z_eq by (rule abs_diff_scale [OF s2])
    also have "\<dots> \<le> (\<bar>r * h + Y\<bar> * u) * s2"
      using Y' s2 by (intro mult_right_mono) (auto simp: u_def)
    also have "\<dots> = \<bar>Z\<bar> * u" using s2 by (simp add: Z_eq abs_mult)
    also have "\<dots> \<le> 1001 / 1000 * u" using Z_le by (intro mult_right_mono) (auto simp: u)
    finally show ?thesis .
  qed
  have fin: "Y' * s2 - 1 = dZ + (Z - 1)" by (simp add: dZ_def)
  have k: "(2::real) / 2 ^ 24 = 2 / 16777216" by simp
  have "0 \<le> \<eta> * \<eta>" by simp
  then show ?thesis
    using dZ_le Z1_le unfolding fin u k by linarith
qed

text \<open>Float lanes.\<close>

lemma fval_consts:
  "fval (lane0 v_zero) = 0" "fval (lane0 v_half) = 1 / 2" "fval (lane0 v_one) = 1"
  by (simp_all add: fval_def f_neg_def f_man_def f_exp_def v_zero_def v_half_def v_one_def)

lemma f_exp_finite:
  assumes "is_finite w"
  shows "f_exp w - 1 \<le> 253"
proof -
  have "f_exp w < 256" by (simp add: f_exp_def)
  with assms show ?thesis by (simp add: is_finite_def)
qed

lemma fval_bound:
  assumes "is_finite w"
  shows "\<bar>fval w\<bar> < 2 ^ 128"
proof -
  define M where "M = f_man w + (if f_exp w = 0 then 0 else 2 ^ 23)"
  define E where "E = f_exp w - 1"
  have "f_man w < 2 ^ 23" by (simp add: f_man_def)
  then have "M < 2 ^ 24" by (simp add: M_def)
  then have M: "real M < 2 ^ 24"
    by (metis of_nat_less_iff of_nat_numeral of_nat_power)
  have E: "E \<le> 253" unfolding E_def by (rule f_exp_finite [OF assms])
  have abs: "\<bar>fval w\<bar> = real M * 2 ^ E / 2 ^ 149"
    by (simp add: fval_def M_def E_def abs_mult)
  have "real M * 2 ^ E \<le> real M * 2 ^ 253"
    using E by (intro mult_left_mono power_increasing) auto
  also have "\<dots> < 2 ^ 24 * 2 ^ 253"
    using M by (intro mult_strict_right_mono) auto
  finally have "real M * 2 ^ E / 2 ^ 149 < 2 ^ 24 * 2 ^ 253 / 2 ^ 149"
    by (simp add: divide_strict_right_mono)
  also have "\<dots> = (2::real) ^ 128" by simp
  finally show ?thesis by (simp add: abs)
qed

lemma lane_map_v4: "lane (map_v4 g v) i = g (lane v i)"
  by (cases v) simp

lemma lane_map3_v4: "lane (map3_v4 g a b c) i = g (lane a i) (lane b i) (lane c i)"
  by (cases a; cases b; cases c) simp

lemma lane_consts:
  "lane v_zero i = lane0 v_zero" "lane v_half i = lane0 v_half" "lane v_one i = lane0 v_one"
  by (simp_all add: v_zero_def v_half_def v_one_def)

lemma lane_rcp:
  "lane (rcp U v) i = rcp_newton U (lane v i) (rcp_newton U (lane v i) (fp_re U (lane v i)))"
  by (simp add: rcp_def Let_def vec_madd_def vec_nmsub_def vec_re_def
        lane_map_v4 lane_map3_v4 lane_consts rcp_newton_def)

lemma lane_rsqrt:
  "lane (rsqrt U v) i =
     rsqrt_newton U (lane v i) (rsqrt_newton U (lane v i) (fp_rsqrte U (lane v i)))"
  by (simp add: rsqrt_def Let_def vec_madd_def vec_nmsub_def vec_rsqrte_def
        lane_map_v4 lane_map3_v4 lane_consts rsqrt_newton_def)

lemma rel_err_scale:
  fixes A X :: real
  assumes "0 < A"
  shows "\<bar>X - 1 / A\<bar> * A = \<bar>1 - A * X\<bar>"
proof -
  have "(X - 1 / A) * A = A * X - 1"
    using assms by (simp add: field_simps)
  then have "\<bar>X - 1 / A\<bar> * A = \<bar>A * X - 1\<bar>"
    using assms by (metis abs_mult abs_of_pos)
  then show ?thesis by (simp add: abs_minus_commute)
qed

lemma rcp_step_error:
  assumes A: "0 < fval a"
    and st: "rcp_step_rounds U a x"
    and e: "\<bar>1 - fval a * fval x\<bar> \<le> \<epsilon>" and eps: "\<epsilon> \<le> 1 / 4096"
  shows "is_finite (rcp_newton U a x)"
    and "\<bar>1 - fval a * fval (rcp_newton U a x)\<bar> \<le> \<epsilon> * \<epsilon> + 2 / 2 ^ 24"
proof -
  let ?r = "fp_nmsub U x a (lane0 v_one)"
  have r: "\<bar>fval ?r - (- (fval x * fval a - 1))\<bar> \<le> \<bar>- (fval x * fval a - 1)\<bar> / 2 ^ 24"
    and x': "\<bar>fval (rcp_newton U a x) - (fval ?r * fval x + fval x)\<bar>
               \<le> \<bar>fval ?r * fval x + fval x\<bar> / 2 ^ 24"
    and fin: "is_finite (rcp_newton U a x)"
    using st by (simp_all add: rcp_step_rounds_def Let_def rounds_def rcp_newton_def fval_consts)
  show "is_finite (rcp_newton U a x)" by (rule fin)
  show "\<bar>1 - fval a * fval (rcp_newton U a x)\<bar> \<le> \<epsilon> * \<epsilon> + 2 / 2 ^ 24"
    by (rule nr_rcp_step [OF A e eps r x'])
qed

lemma rcp_lane_accuracy:
  assumes A: "0 < fval a" and rr: "rcp_rounds U a"
  shows "within_1e6 (rcp_newton U a (rcp_newton U a (fp_re U a))) (1 / fval a)"
proof -
  let ?x0 = "fp_re U a"
  let ?x1 = "rcp_newton U a ?x0"
  let ?x2 = "rcp_newton U a ?x1"
  have est: "\<bar>fval ?x0 - 1 / fval a\<bar> \<le> \<bar>1 / fval a\<bar> / 2 ^ 12"
    and s0: "rcp_step_rounds U a ?x0" and s1: "rcp_step_rounds U a ?x1"
    using rr by (simp_all add: rcp_rounds_def Let_def estimates_def)
  have e0: "\<bar>1 - fval a * fval ?x0\<bar> \<le> 1 / 4096"
  proof -
    have "\<bar>1 - fval a * fval ?x0\<bar> = \<bar>fval ?x0 - 1 / fval a\<bar> * fval a"
      by (rule rel_err_scale [OF A, symmetric])
    also have "\<dots> \<le> \<bar>1 / fval a\<bar> / 2 ^ 12 * fval a"
      using est A by (intro mult_right_mono) auto
    also have "\<dots> = 1 / 4096" using A by simp
    finally show ?thesis .
  qed
  have e1: "\<bar>1 - fval a * fval ?x1\<bar> \<le> 1 / 4096 * (1 / 4096) + 2 / 2 ^ 24"
    by (rule rcp_step_error(2) [OF A s0 e0]) simp
  have e1': "\<bar>1 - fval a * fval ?x1\<bar> \<le> 3 / 2 ^ 24"
    using e1 by simp
  have fin: "is_finite ?x2"
    by (rule rcp_step_error(1) [OF A s1 e1']) simp
  have e2: "\<bar>1 - fval a * fval ?x2\<bar> \<le> 3 / 2 ^ 24 * (3 / 2 ^ 24) + 2 / 2 ^ 24"
    by (rule rcp_step_error(2) [OF A s1 e1']) simp
  have "\<bar>fval ?x2 - 1 / fval a\<bar> / (1 / fval a) = \<bar>1 - fval a * fval ?x2\<bar>"
    using rel_err_scale [OF A, of "fval ?x2"] by simp
  also have "\<dots> < 1 / 10 ^ 6"
    using e2 by simp
  finally show ?thesis
    using fin by (simp add: within_1e6_def)
qed

lemma rsqrt_step_error:
  assumes A: "0 < fval a"
    and st: "rsqrt_step_rounds U a y"
    and e: "\<bar>fval y * sqrt (fval a) - 1\<bar> \<le> \<eta>" and eta: "\<eta> \<le> 1 / 4096"
  shows "is_finite (rsqrt_newton U a y)"
    and "\<bar>fval (rsqrt_newton U a y) * sqrt (fval a) - 1\<bar> \<le> 2 * (\<eta> * \<eta>) + 2 / 2 ^ 24"
proof -
  let ?s = "fp_madd U y y (lane0 v_zero)"
  let ?r = "fp_nmsub U ?s a (lane0 v_one)"
  let ?h = "fp_madd U y (lane0 v_half) (lane0 v_zero)"
  have y': "rsqrt_newton U a y = fp_madd U ?r ?h y"
    by (simp add: rsqrt_newton_def)
  have all: "rounds ?s (fval y * fval y + 0)
      \<and> rounds ?r (- (fval ?s * fval a - 1))
      \<and> rounds ?h (fval y * (1 / 2) + 0)
      \<and> rounds (rsqrt_newton U a y) (fval ?r * fval ?h + fval y)"
    using st unfolding rsqrt_step_rounds_def Let_def fval_consts y' .
  have s: "\<bar>fval ?s - (fval y * fval y + 0)\<bar> \<le> \<bar>fval y * fval y + 0\<bar> / 2 ^ 24"
    and r: "\<bar>fval ?r - (- (fval ?s * fval a - 1))\<bar> \<le> \<bar>- (fval ?s * fval a - 1)\<bar> / 2 ^ 24"
    and h: "\<bar>fval ?h - (fval y * (1 / 2) + 0)\<bar> \<le> \<bar>fval y * (1 / 2) + 0\<bar> / 2 ^ 24"
    and n: "\<bar>fval (rsqrt_newton U a y) - (fval ?r * fval ?h + fval y)\<bar>
              \<le> \<bar>fval ?r * fval ?h + fval y\<bar> / 2 ^ 24"
    and fin: "is_finite (rsqrt_newton U a y)"
    using all unfolding rounds_def by blast+
  have s2: "0 < sqrt (fval a)" using A by simp
  have AA: "fval a = sqrt (fval a) * sqrt (fval a)" using A by simp
  show "is_finite (rsqrt_newton U a y)" by (rule fin)
  show "\<bar>fval (rsqrt_newton U a y) * sqrt (fval a) - 1\<bar> \<le> 2 * (\<eta> * \<eta>) + 2 / 2 ^ 24"
    by (rule nr_rsqrt_step [OF s2 AA e eta s r h n])
qed

lemma rsqrt_lane_accuracy:
  assumes A: "0 < fval a" and rr: "rsqrt_rounds U a"
  shows "within_1e6 (rsqrt_newton U a (rsqrt_newton U a (fp_rsqrte U a))) (1 / sqrt (fval a))"
proof -
  let ?y0 = "fp_rsqrte U a"
  let ?y1 = "rsqrt_newton U a ?y0"
  let ?y2 = "rsqrt_newton U a ?y1"
  have s2: "0 < sqrt (fval a)" using A by simp
  have est: "\<bar>fval ?y0 - 1 / sqrt (fval a)\<bar> \<le> \<bar>1 / sqrt (fval a)\<bar> / 2 ^ 12"
    and s0: "rsqrt_step_rounds U a ?y0" and s1: "rsqrt_step_rounds U a ?y1"
    using rr by (simp_all add: rsqrt_rounds_def Let_def estimates_def)
  have scale: "\<bar>X * sqrt (fval a) - 1\<bar> = \<bar>X - 1 / sqrt (fval a)\<bar> * sqrt (fval a)" for X
    using rel_err_scale [OF s2, of X] by (simp add: abs_minus_commute mult.commute)
  have e0: "\<bar>fval ?y0 * sqrt (fval a) - 1\<bar> \<le> 1 / 4096"
  proof -
    have "\<bar>fval ?y0 * sqrt (fval a) - 1\<bar> = \<bar>fval ?y0 - 1 / sqrt (fval a)\<bar> * sqrt (fval a)"
      by (rule scale)
    also have "\<dots> \<le> \<bar>1 / sqrt (fval a)\<bar> / 2 ^ 12 * sqrt (fval a)"
      using est s2 by (intro mult_right_mono) auto
    also have "\<dots> = 1 / 4096" using s2 by simp
    finally show ?thesis .
  qed
  have e1: "\<bar>fval ?y1 * sqrt (fval a) - 1\<bar> \<le> 2 * (1 / 4096 * (1 / 4096)) + 2 / 2 ^ 24"
    by (rule rsqrt_step_error(2) [OF A s0 e0]) simp
  have e1': "\<bar>fval ?y1 * sqrt (fval a) - 1\<bar> \<le> 1 / 2 ^ 22"
    using e1 by simp
  have fin: "is_finite ?y2"
    by (rule rsqrt_step_error(1) [OF A s1 e1']) simp
  have e2: "\<bar>fval ?y2 * sqrt (fval a) - 1\<bar> \<le> 2 * (1 / 2 ^ 22 * (1 / 2 ^ 22)) + 2 / 2 ^ 24"
    by (rule rsqrt_step_error(2) [OF A s1 e1']) simp
  have "\<bar>fval ?y2 - 1 / sqrt (fval a)\<bar> / (1 / sqrt (fval a)) = \<bar>fval ?y2 * sqrt (fval a) - 1\<bar>"
    using scale [of "fval ?y2"] by simp
  also have "\<dots> < 1 / 10 ^ 6"
    using e2 by simp
  finally show ?thesis
    using fin by (simp add: within_1e6_def)
qed

lemma fval_samples:
  "fval 0x40000000 = 2" "fval 0x40800000 = 4" "fval 0x3F000000 = 1 / 2"
  "fval 0x3E800000 = 1 / 4" "fval 0 = 0"
  "fval 0x3EFFF000 = 1 / 2 - 1 / 2 ^ 13" "fval 0x39800000 = 1 / 2 ^ 12"
  "fval 0x3EFFFFFF = 1 / 2 - 1 / 2 ^ 25" "fval 0x33800000 = 1 / 2 ^ 24"
  by (simp_all add: fval_def f_neg_def f_man_def f_exp_def)

lemma finite_samples:
  "is_finite 0x40000000" "is_finite 0x40800000" "is_finite 0x3F000000"
  "is_finite 0x3E800000" "is_finite 0"
  "is_finite 0x3EFFF000" "is_finite 0x39800000"
  "is_finite 0x3EFFFFFF" "is_finite 0x33800000"
  by (simp_all add: is_finite_def f_exp_def)

text \<open>
  C5, as stated for every finite, strictly positive lane value, fails at the smallest
  denormal \<open>a = 2^-149\<close> (bit pattern 1): \<open>1 / a = 2^149\<close> is beyond every finite
  single, all of which are below \<open>2^128\<close>, so no lane that \<open>rcp\<close> can return is within
  \<open>1e-6\<close> of it, whatever the processor computes.
\<close>

theorem rcp_denormal_counterexample:
  "is_finite (1 :: word32) \<and> 0 < fval 1 \<and> 1 / fval 1 = 2 ^ 149
   \<and> (\<forall>U. \<not> within_1e6 (lane0 (rcp U (V4 1 1 1 1))) (1 / fval 1))"
proof -
  have v: "fval 1 = 1 / 2 ^ 149"
    by (simp add: fval_def f_neg_def f_man_def f_exp_def)
  have f: "is_finite (1 :: word32)"
    by (simp add: is_finite_def f_exp_def)
  have n: "\<not> within_1e6 w (2 ^ 149)" for w
  proof
    assume "within_1e6 w (2 ^ 149)"
    then have fin: "is_finite w" and b: "\<bar>fval w - 2 ^ 149\<bar> / 2 ^ 149 < 1 / 10 ^ 6"
      by (simp_all add: within_1e6_def)
    from fval_bound [OF fin] have "\<bar>fval w\<bar> < 2 ^ 128" .
    with b show False by (simp add: field_simps)
  qed
  show ?thesis
    using n by (simp add: v f)
qed

text \<open>
  C5, amended: for every lane \<open>a\<close> of the argument that is finite and strictly
  positive, if the hardware estimate is within relative error \<open>2^-12\<close> of the exact
  value and every multiply-add of the two refinement steps returns a finite lane within
  relative error \<open>2^-24\<close> of its exact result, then the lane of \<open>rcp\<close> is within
  relative error \<open>1e-6\<close> of \<open>1 / a\<close>, and under the same conditions on its own
  instructions the lane of \<open>rsqrt\<close> is within \<open>1e-6\<close> of \<open>1 / sqrt a\<close>.
\<close>

theorem rcp_rsqrt_accuracy:
  "(is_finite (lane v i) \<and> 0 < fval (lane v i) \<and> rcp_rounds U (lane v i)
      \<longrightarrow> within_1e6 (lane (rcp U v) i) (1 / fval (lane v i)))
   \<and> (is_finite (lane v i) \<and> 0 < fval (lane v i) \<and> rsqrt_rounds U (lane v i)
      \<longrightarrow> within_1e6 (lane (rsqrt U v) i) (1 / sqrt (fval (lane v i))))"
  by (simp add: lane_rcp lane_rsqrt rcp_lane_accuracy rsqrt_lane_accuracy)

theorem rcp_rsqrt_accuracy_witness:
  "within_1e6 (lane (rcp fpu_sample (V4 0x40000000 0x40800000 0x40000000 0x40800000)) 0)
     (1 / fval 0x40000000)
   \<and> within_1e6 (lane (rsqrt fpu_sample (V4 0x40000000 0x40800000 0x40000000 0x40800000)) 1)
     (1 / sqrt (fval 0x40800000))"
proof -
  have a: "rcp_rounds fpu_sample 0x40000000"
    by (simp add: rcp_rounds_def rcp_step_rounds_def rcp_newton_def Let_def estimates_def
          rounds_def fpu_sample_def fval_consts fval_samples finite_samples)
  have "sqrt (fval 0x40800000) = 2"
    by (simp add: fval_samples)
  then have b: "rsqrt_rounds fpu_sample 0x40800000"
    by (simp add: rsqrt_rounds_def rsqrt_step_rounds_def rsqrt_newton_def Let_def estimates_def
          rounds_def fpu_sample_def v_zero_def fval_consts [unfolded v_zero_def]
          fval_samples finite_samples)
  show ?thesis
    using rcp_rsqrt_accuracy [of "V4 0x40000000 0x40800000 0x40000000 0x40800000" 0 fpu_sample]
          rcp_rsqrt_accuracy [of "V4 0x40000000 0x40800000 0x40000000 0x40800000" 1 fpu_sample]
    by (simp add: a b fval_samples finite_samples)
qed


end
